theory Spec2Isabelle
  imports Main "HOL-Library.Sublist"
begin

section \<open>The LyncFormula task pane (taskpane.js)\<close>

text \<open>
  A shallow embedding of \<^verbatim>\<open>src/excel_addin/taskpane/taskpane.js\<close>, the controller of an
  Excel task pane. The script keeps its state in global variables and in the page's
  elements; here both are fields of one record that every handler takes and returns.
  An \<^verbatim>\<open>async\<close> handler is cut at its \<^verbatim>\<open>await\<close>s: the part before the first one is a
  function of the state at the click, each later part a function of the state at the
  moment the awaited promise settles and of what it settled with.
\<close>

subsection \<open>Strings\<close>

text \<open>
  Texts are lists of 8-bit characters and the model follows JavaScript on ASCII text:
  \<^verbatim>\<open>toLowerCase\<close> maps \<^verbatim>\<open>A\<close>..\<^verbatim>\<open>Z\<close> to \<^verbatim>\<open>a\<close>..\<^verbatim>\<open>z\<close> and leaves every other
  character alone, \<^verbatim>\<open>trim\<close> strips the ASCII white space (tab, line feed, vertical tab,
  form feed, carriage return, space) from both ends, \<^verbatim>\<open>includes\<close> is the search for a
  contiguous substring.
\<close>

definition lower_char :: "char \<Rightarrow> char" where
  "lower_char c =
     (case map_of (zip ''ABCDEFGHIJKLMNOPQRSTUVWXYZ'' ''abcdefghijklmnopqrstuvwxyz'') c of
        Some d \<Rightarrow> d
      | None \<Rightarrow> c)"

definition toLowerCase :: "string \<Rightarrow> string" where
  "toLowerCase s = map lower_char s"

fun js_includes :: "string \<Rightarrow> string \<Rightarrow> bool" where
  "js_includes [] k = (k = [])"
| "js_includes (c # cs) k = (prefix k (c # cs) \<or> js_includes cs k)"

definition is_space :: "char \<Rightarrow> bool" where
  "is_space c = (c \<in> set [CHR 0x09, CHR 0x0A, CHR 0x0B, CHR 0x0C, CHR 0x0D, CHR '' ''])"

definition trim :: "string \<Rightarrow> string" where
  "trim s = rev (dropWhile is_space (rev (dropWhile is_space s)))"

subsection \<open>JavaScript values read from JSON\<close>

text \<open>
  A scalar field of a parsed response: absent (\<^verbatim>\<open>undefined\<close>), \<^verbatim>\<open>null\<close>, a boolean, a
  number (the integers only, and below \<open>10\<^sup>2\<^sup>1\<close> in size, where JavaScript still prints
  all digits) or a string. \<open>truthy\<close> is what \<^verbatim>\<open>if (v)\<close>, \<^verbatim>\<open>v || d\<close> and
  \<^verbatim>\<open>v ? a : b\<close> test, \<open>toStr\<close> is the text a template literal puts in for
  \<^verbatim>\<open>${v}\<close>. An object or an array in such a field is not modelled: it is truthy and
  it prints, it does not throw.
\<close>

datatype jsval = JUndefined | JNull | JBool bool | JNum int | JStr string

fun truthy :: "jsval \<Rightarrow> bool" where
  "truthy JUndefined = False"
| "truthy JNull = False"
| "truthy (JBool b) = b"
| "truthy (JNum n) = (n \<noteq> 0)"
| "truthy (JStr s) = (s \<noteq> [])"

definition js_or :: "jsval \<Rightarrow> jsval \<Rightarrow> jsval" where
  "js_or a b = (if truthy a then a else b)"

fun string_of_nat :: "nat \<Rightarrow> string" where
  "string_of_nat n =
     (if n < 10 then [''0123456789'' ! n]
      else string_of_nat (n div 10) @ [''0123456789'' ! (n mod 10)])"

declare string_of_nat.simps [simp del]

fun toStr :: "jsval \<Rightarrow> string" where
  "toStr JUndefined = ''undefined''"
| "toStr JNull = ''null''"
| "toStr (JBool b) = (if b then ''true'' else ''false'')"
| "toStr (JNum n) = (if n < 0 then ''-'' @ string_of_nat (nat (- n)) else string_of_nat (nat n))"
| "toStr (JStr s) = s"

text \<open>\<^verbatim>\<open>Array.prototype.join\<close>: \<^verbatim>\<open>undefined\<close> and \<^verbatim>\<open>null\<close> elements give the empty text.\<close>

fun join_elem :: "jsval \<Rightarrow> string" where
  "join_elem JUndefined = []"
| "join_elem JNull = []"
| "join_elem v = toStr v"

fun join :: "string \<Rightarrow> string list \<Rightarrow> string" where
  "join sep [] = []"
| "join sep [x] = x"
| "join sep (x # y # ys) = x @ sep @ join sep (y # ys)"

subsection \<open>The data the script works on\<close>

text \<open>An entry of \<^verbatim>\<open>selectedFiles\<close>.\<close>

record file_entry =
  name :: string
  path :: string

text \<open>
  The context snapshot sent with a request. A JavaScript object has the fields that were
  assigned to it, so each field the two shapes do not share is optional.
\<close>

record excel_context =
  worksheetName :: string
  usedRange :: "string option"
  rowCount :: "int option"
  columnCount :: "int option"
  hasSelection :: "bool option"
  selectedRange :: "string option"
  error :: "string option"

text \<open>
  A field that the script treats as an array. What it holds may be falsy (absent,
  \<^verbatim>\<open>null\<close>, \<^verbatim>\<open>false\<close>, \<^verbatim>\<open>0\<close>, the empty string), an array, or another truthy value: a
  string that is not empty, a value whose \<^verbatim>\<open>length\<close> is greater than 0 (an object with
  such a field), or a value with no such \<^verbatim>\<open>length\<close> (a number, \<^verbatim>\<open>true\<close>, an object).
  An element of an array of objects is \<open>None\<close> when it is \<^verbatim>\<open>null\<close>; an element that is
  neither \<^verbatim>\<open>null\<close> nor an object reads as an object without fields.
\<close>

datatype non_array = NonEmptyString | HasLength | NoLength

datatype 'a js_array = Falsy | Array "'a list" | NotArray non_array

text \<open>
  The parsed body of a response of the service: the fields the renderers read, the
  iterated ones as \<open>js_array\<close>s, all others as scalars. \<open>json_text\<close> stands for
  \<^verbatim>\<open>JSON.stringify(result, null, 2)\<close>, the text of the same value, which the model
  carries along instead of printing it.
\<close>

record explanation_item =
  ex_address :: jsval
  ex_complexity :: jsval
  ex_formula :: jsval
  ex_explanation :: jsval
  ex_functions :: "jsval js_array"

record issue_item =
  title :: jsval
  severity :: jsval
  description :: jsval
  cell_address :: jsval
  suggested_fix :: jsval

record breakdown =
  high :: jsval
  medium :: jsval
  low :: jsval

record summary_obj =
  total_issues :: jsval
  severity_breakdown :: "breakdown option"

record analysis_item =
  an_address :: jsval
  an_confidence :: jsval
  an_original_formula :: jsval
  an_explanation :: jsval
  an_has_errors :: jsval
  an_error_details :: jsval
  an_suggestions :: "jsval js_array"
  an_improved_formula :: jsval

record nl_item =
  nl_result :: jsval
  nl_action :: jsval

record result =
  success :: jsval
  r_error :: jsval
  explanations :: "explanation_item option js_array"
  issues :: "issue_item option js_array"
  audit_summary :: "summary_obj option"
  analysis_results :: "analysis_item option js_array"
  consolidated_file :: jsval
  rows_merged :: jsval
  files_processed :: jsval
  operation_type :: jsval
  summary :: jsval
  results :: "nl_item option js_array"
  json_text :: string

text \<open>The body of \<^verbatim>\<open>GET /health\<close>.\<close>

record health =
  service :: jsval
  version :: jsval

text \<open>An entry of \<^verbatim>\<open>operationHistory\<close>: \<^verbatim>\<open>{id, query, result, timestamp}\<close>.\<close>

record history_item =
  h_id :: int
  h_query :: string
  h_result :: result
  h_timestamp :: string

text \<open>
  The object stored under \<^verbatim>\<open>lyncformula-settings\<close>, as \<^verbatim>\<open>JSON.parse\<close> gives it back:
  a field is \<open>None\<close> when the object does not have it.
\<close>

record settings =
  s_serviceUrl :: "string option"
  s_llmModel :: "string option"
  s_autoBackup :: "bool option"

text \<open>\<^verbatim>\<open>{query, files, context}\<close>, the body of a request.\<close>

record request_data =
  rq_query :: string
  rq_files :: "file_entry list"
  rq_context :: excel_context

text \<open>
  What is stored under a key of \<^verbatim>\<open>localStorage\<close>: a text that \<^verbatim>\<open>JSON.parse\<close> reads back
  as the value \<^verbatim>\<open>JSON.stringify\<close> was given, or a text it throws on. Each of the two keys
  is written by one function of the script only.
\<close>

datatype 'a stored = Json 'a | Corrupt

text \<open>
  The body of a response, as \<^verbatim>\<open>response.json()\<close> reads it: a text that is not JSON
  (\<^verbatim>\<open>json()\<close> throws, with the error's message), the JSON value \<^verbatim>\<open>null\<close>, or any other
  JSON value, given by the fields the script reads from it (a field the value does not
  have is \<^verbatim>\<open>undefined\<close>).
\<close>

datatype 'a body = Unparseable string | JsonNull | JsonValue 'a

text \<open>
  What a \<^verbatim>\<open>fetch\<close> followed by \<^verbatim>\<open>response.json()\<close> ends with: the request fails (no
  response, \<^verbatim>\<open>fetch\<close> throws with a message), or a response arrives with its status, its
  status text and its body.
\<close>

datatype 'a fetch_outcome =
    NetworkError string
  | HttpResponse nat string "'a body"

text \<open>
  The message of the \<^verbatim>\<open>TypeError\<close> thrown when a property of \<^verbatim>\<open>null\<close> is read (the
  wording is the engine's; here V8's).
\<close>

definition null_read :: "string \<Rightarrow> string" where
  "null_read property =
     ''Cannot read properties of null (reading '' @ [CHR 0x27] @ property @ [CHR 0x27] @ '')''"

definition response_ok :: "nat \<Rightarrow> bool" where
  "response_ok status = (200 \<le> status \<and> status \<le> 299)"

text \<open>
  A child of a container of the page. For an element built with \<^verbatim>\<open>createElement\<close> the
  fields are what the script assigned; \<open>innerHTML\<close> holds the text of a template with
  the white space between its tags left out.
\<close>

record element =
  tagName :: string
  className :: string
  innerHTML :: string

datatype conn_status = Connecting | Connected | Error

text \<open>
  A call of \<^verbatim>\<open>handleSubmitRequest\<close> that has not returned: it waits for the Excel context
  (with the query it read), or for the response of the request it sent (with the query,
  the URL and the body of the request).
\<close>

datatype task =
    AwaitContext string
  | AwaitResponse string string request_data

text \<open>
  The globals of the script, the properties of the page's elements it reads or writes,
  the two keys of \<^verbatim>\<open>localStorage\<close>, and the calls of \<^verbatim>\<open>handleSubmitRequest\<close> in progress.
  \<open>storage_fails\<close> says that \<^verbatim>\<open>localStorage.setItem\<close> throws (storage full or denied).
  The elements the script looks up by their id are taken to be in the page.
\<close>

record app =
  serviceUrl :: string
  connectionStatus :: conn_status
  selectedFiles :: "file_entry list"
  operationHistory :: "history_item list"
  input_value :: string
  submit_disabled :: bool
  loading_display :: string
  status_indicator_class :: string
  status_text :: string
  results_content :: "element list"
  file_selection_display :: string
  selected_files_html :: string
  history_content :: string
  settings_panel_display :: string
  service_url_value :: string
  llm_model_value :: string
  auto_backup_checked :: bool
  notifications :: "string list"
  lyncformula_history :: "history_item list stored option"
  lyncformula_settings :: "settings stored option"
  storage_fails :: bool
  health_checks :: "string list"
  pending :: "task list"

subsection \<open>Small helpers of the page\<close>

definition validateInput :: "app \<Rightarrow> app" where
  "validateInput st =
     (let hasInput = (length (trim (input_value st)) > 0);
          isConnected = (connectionStatus st = Connected)
      in st\<lparr>submit_disabled := (\<not> hasInput \<or> \<not> isConnected)\<rparr>)"

definition showLoading :: "bool \<Rightarrow> app \<Rightarrow> app" where
  "showLoading show st = st\<lparr>loading_display := (if show then ''flex'' else ''none'')\<rparr>"

definition showError :: "string \<Rightarrow> app \<Rightarrow> app" where
  \<open>showError message st =
     st\<lparr>results_content :=
       [\<lparr>tagName = ''div'', className = ''result-item result-error'',
         innerHTML = ''<div class="result-header"><strong>Error</strong></div>''
           @ ''<div class="result-content">'' @ message @ ''</div>''\<rparr>]\<rparr>\<close>

definition showFileSelection :: "app \<Rightarrow> app" where
  "showFileSelection st = st\<lparr>file_selection_display := ''block''\<rparr>"

definition hideFileSelection :: "app \<Rightarrow> app" where
  "hideFileSelection st = st\<lparr>file_selection_display := ''none''\<rparr>"

definition showSettings :: "app \<Rightarrow> app" where
  "showSettings st = st\<lparr>settings_panel_display := ''block''\<rparr>"

definition hideSettings :: "app \<Rightarrow> app" where
  "hideSettings st = st\<lparr>settings_panel_display := ''none''\<rparr>"

text \<open>
  \<^verbatim>\<open>showNotification\<close> adds a notice to the page; the timer that takes it away three
  seconds later is the event \<open>NotificationTimeout\<close> below.
\<close>

definition showNotification :: "string \<Rightarrow> app \<Rightarrow> app" where
  "showNotification message st = st\<lparr>notifications := notifications st @ [message]\<rparr>"

subsection \<open>The intent router\<close>

definition determineEndpoint :: "app \<Rightarrow> string \<Rightarrow> string" where
  "determineEndpoint st query =
     (let lowerQuery = toLowerCase query in
      if js_includes lowerQuery ''audit'' \<or> js_includes lowerQuery ''check''
           \<or> js_includes lowerQuery ''analyze''
      then (if length (selectedFiles st) > 0 \<or> js_includes lowerQuery ''file''
            then ''/smart_analysis''
            else ''/audit_formulas'')
      else if js_includes lowerQuery ''explain'' \<or> js_includes lowerQuery ''describe''
      then ''/explain_sheet''
      else if js_includes lowerQuery ''consolidate'' \<or> js_includes lowerQuery ''merge''
           \<or> js_includes lowerQuery ''combine''
      then ''/consolidate_files''
      else if js_includes lowerQuery ''fix'' \<or> js_includes lowerQuery ''repair''
      then ''/apply_fixes''
      else ''/natural_language'')"

subsection \<open>The Excel context\<close>

text \<open>
  What the host answers inside the function given to \<^verbatim>\<open>Excel.run\<close>. \<open>sheet_sync\<close> is the outcome of the
  statements of the outer \<^verbatim>\<open>try\<close> up to the first \<^verbatim>\<open>context.sync()\<close> (the active
  worksheet's name and its used range), \<open>selection_sync\<close> that of the inner \<^verbatim>\<open>try\<close>
  (\<^verbatim>\<open>getSelectedRange\<close>, \<^verbatim>\<open>load\<close>, \<^verbatim>\<open>sync\<close>). \<open>Inl\<close> is a thrown error, an
  object with a message, given by that message.
\<close>

record sheet_info =
  ws_name :: string
  ur_address :: string
  ur_rowCount :: int
  ur_columnCount :: int

record excel_host =
  sheet_sync :: "string + sheet_info"
  selection_sync :: "string + string"

text \<open>
  What \<^verbatim>\<open>Excel.run\<close> does with the function it is given: it throws at once (with the
  error's message), it never calls the function, or it calls it, and the host then
  answers inside as the \<open>excel_host\<close> says.
\<close>

datatype excel_run = Throws string | NeverCalls | Calls excel_host

text \<open>
  The state of a promise: resolved with a value, rejected (with the error's message),
  or never settled.
\<close>

datatype 'a promise = Resolved 'a | Rejected string | Pending

definition read_sheet :: "excel_host \<Rightarrow> string + excel_context" where
  "read_sheet host =
     (case sheet_sync host of
        Inl message \<Rightarrow> Inl message
      | Inr info \<Rightarrow>
          Inr \<lparr>worksheetName = ws_name info, usedRange = Some (ur_address info),
               rowCount = Some (ur_rowCount info), columnCount = Some (ur_columnCount info),
               hasSelection = Some False, selectedRange = None, error = None\<rparr>)"

definition read_selection :: "excel_host \<Rightarrow> excel_context \<Rightarrow> string + excel_context" where
  "read_selection host contextInfo =
     (case selection_sync host of
        Inl message \<Rightarrow> Inl message
      | Inr address \<Rightarrow>
          Inr (contextInfo\<lparr>selectedRange := Some address, hasSelection := Some True\<rparr>))"

text \<open>
  The function given to \<^verbatim>\<open>Excel.run\<close>: the outer \<^verbatim>\<open>try\<close> with the inner one in it,
  each path ending in a call of \<^verbatim>\<open>resolve\<close>.
\<close>

definition run_callback :: "excel_host \<Rightarrow> excel_context promise" where
  "run_callback host =
     (case read_sheet host of
        Inr contextInfo \<Rightarrow>
          (case read_selection host contextInfo of
             Inr contextInfo' \<Rightarrow> Resolved contextInfo'
           | Inl e \<Rightarrow> Resolved contextInfo)
      | Inl message \<Rightarrow>
          Resolved \<lparr>worksheetName = ''Unknown'', usedRange = None, rowCount = None,
                    columnCount = None, hasSelection = None, selectedRange = None,
                    error = Some message\<rparr>)"

text \<open>
  The promise \<^verbatim>\<open>getCurrentExcelContext\<close> returns has no \<^verbatim>\<open>reject\<close> of its own: it is
  rejected when its executor throws, which is when \<^verbatim>\<open>Excel.run\<close> throws, and it stays
  pending when the function given to \<^verbatim>\<open>Excel.run\<close> is never called.
\<close>

definition getCurrentExcelContext :: "excel_run \<Rightarrow> excel_context promise" where
  "getCurrentExcelContext excelRun =
     (case excelRun of
        Throws message \<Rightarrow> Rejected message
      | NeverCalls \<Rightarrow> Pending
      | Calls host \<Rightarrow> run_callback host)"

subsection \<open>Rendering a result\<close>

text \<open>
  A renderer takes the children of the results container and returns them with the
  elements it appends, or it throws (\<open>Inl\<close>, with the message of the \<^verbatim>\<open>TypeError\<close>, in
  V8's wording). A renderer that throws has appended elements before; its only caller,
  \<^verbatim>\<open>handleSubmitRequest\<close>, then replaces the content of the container by the error, so a
  throw carries no container.
\<close>

definition not_a_function :: "string \<Rightarrow> string" where
  "not_a_function expression = expression @ '' is not a function''"

text \<open>
  \<^verbatim>\<open>forEach\<close> and \<^verbatim>\<open>map\<close> over an array: the function is applied from the first element
  on, and its first throw ends the loop.
\<close>

fun for_each :: "('a \<Rightarrow> string + 'b) \<Rightarrow> 'a list \<Rightarrow> string + 'b list" where
  "for_each f [] = Inr []"
| "for_each f (x # xs) =
     (case f x of
        Inl message \<Rightarrow> Inl message
      | Inr y \<Rightarrow> (case for_each f xs of Inl message \<Rightarrow> Inl message | Inr ys \<Rightarrow> Inr (y # ys)))"

text \<open>The test \<^verbatim>\<open>x && x.length > 0\<close>.\<close>

fun has_items :: "'a js_array \<Rightarrow> bool" where
  "has_items Falsy = False"
| "has_items (Array xs) = (length xs > 0)"
| "has_items (NotArray NonEmptyString) = True"
| "has_items (NotArray HasLength) = True"
| "has_items (NotArray NoLength) = False"

text \<open>\<^verbatim>\<open>x.join(', ')\<close>, reached only when \<^verbatim>\<open>x\<close> is truthy: only an array has it.\<close>

definition join_field :: "string \<Rightarrow> jsval js_array \<Rightarrow> string + string" where
  "join_field expression field =
     (case field of
        Array xs \<Rightarrow> Inr (join '', '' (map join_elem xs))
      | Falsy \<Rightarrow> Inl (not_a_function (expression @ ''.join''))
      | NotArray kind \<Rightarrow> Inl (not_a_function (expression @ ''.join'')))"

definition functions_part :: "explanation_item \<Rightarrow> string + string" where
  \<open>functions_part explanation =
     (if has_items (ex_functions explanation)
      then map_sum id
             (\<lambda>joined. ''<div class="result-functions"><small>Functions: '' @ joined
                        @ ''</small></div>'')
             (join_field ''explanation.functions'' (ex_functions explanation))
      else Inr [])\<close>

definition explanation_html :: "explanation_item \<Rightarrow> string + string" where
  \<open>explanation_html explanation =
     map_sum id
       (\<lambda>functions.
          ''<div class="result-header"><strong>'' @ toStr (ex_address explanation)
            @ '':</strong><span class="result-complexity">'' @ toStr (ex_complexity explanation)
            @ ''</span></div><div class="result-formula"><code>'' @ toStr (ex_formula explanation)
            @ ''</code></div><div class="result-content">'' @ toStr (ex_explanation explanation)
            @ ''</div>'' @ functions)
       (functions_part explanation)\<close>

text \<open>
  The body of the \<^verbatim>\<open>forEach\<close>: the first field it reads from its element is
  \<^verbatim>\<open>address\<close>, and reading a field of \<^verbatim>\<open>null\<close> throws.
\<close>

definition explanation_child :: "explanation_item option \<Rightarrow> string + element" where
  "explanation_child e =
     (case e of
        None \<Rightarrow> Inl (null_read ''address'')
      | Some explanation \<Rightarrow>
          map_sum id
            (\<lambda>html. \<lparr>tagName = ''div'', className = ''result-item result-success'',
                      innerHTML = html\<rparr>)
            (explanation_html explanation))"

definition showFormulaExplanations ::
  "explanation_item option js_array \<Rightarrow> element list \<Rightarrow> string + element list" where
  "showFormulaExplanations explanationList container =
     (case explanationList of
        Array es \<Rightarrow>
          map_sum id
            (\<lambda>items. container
                @ [\<lparr>tagName = ''h4'', className = ''result-title'',
                    innerHTML = ''Formula Explanations''\<rparr>]
                @ items)
            (for_each explanation_child es)
      | Falsy \<Rightarrow> Inl (not_a_function ''explanations.forEach'')
      | NotArray kind \<Rightarrow> Inl (not_a_function ''explanations.forEach''))"

text \<open>\<^verbatim>\<open>summary.severity_breakdown?.high\<close> and its two siblings.\<close>

definition breakdown_field :: "(breakdown \<Rightarrow> jsval) \<Rightarrow> summary_obj option \<Rightarrow> jsval" where
  "breakdown_field field auditSummary =
     (case auditSummary of
        None \<Rightarrow> JUndefined
      | Some s \<Rightarrow> (case severity_breakdown s of None \<Rightarrow> JUndefined | Some b \<Rightarrow> field b))"

text \<open>
  \<^verbatim>\<open>const summary = result.audit_summary || {}\<close>: without a summary object every field
  read from it is \<^verbatim>\<open>undefined\<close>.
\<close>

definition summary_total :: "summary_obj option \<Rightarrow> jsval" where
  "summary_total auditSummary = (case auditSummary of None \<Rightarrow> JUndefined | Some s \<Rightarrow> total_issues s)"

definition summary_html :: "summary_obj option \<Rightarrow> string" where
  \<open>summary_html auditSummary =
     ''<div class="result-header"><strong>Audit Summary</strong></div>''
       @ ''<div class="result-content">''
       @ ''<p>Total Issues: '' @ toStr (js_or (summary_total auditSummary) (JNum 0)) @ ''</p>''
       @ ''<p>High Priority: '' @ toStr (js_or (breakdown_field high auditSummary) (JNum 0)) @ ''</p>''
       @ ''<p>Medium Priority: '' @ toStr (js_or (breakdown_field medium auditSummary) (JNum 0)) @ ''</p>''
       @ ''<p>Low Priority: '' @ toStr (js_or (breakdown_field low auditSummary) (JNum 0)) @ ''</p>''
       @ ''</div>''\<close>

definition issue_class :: "issue_item \<Rightarrow> string" where
  "issue_class issue =
     ''result-item '' @ (if severity issue = JStr ''high'' then ''result-error''
                         else if severity issue = JStr ''medium'' then ''result-warning''
                         else ''result-success'')"

definition issue_html :: "issue_item \<Rightarrow> string" where
  \<open>issue_html issue =
     ''<div class="result-header"><strong>'' @ toStr (title issue)
       @ ''</strong><span class="severity-badge">'' @ toStr (severity issue)
       @ ''</span></div><div class="result-content"><p>'' @ toStr (description issue)
       @ ''</p><p><strong>Cell:</strong> '' @ toStr (cell_address issue)
       @ ''</p><p><strong>Suggested Fix:</strong> '' @ toStr (suggested_fix issue)
       @ ''</p></div>''\<close>

definition issue_element :: "issue_item \<Rightarrow> element" where
  "issue_element issue =
     \<lparr>tagName = ''div'', className = issue_class issue, innerHTML = issue_html issue\<rparr>"

text \<open>
  The body of the \<^verbatim>\<open>forEach\<close> over the issues: the first field it reads from its
  element is \<^verbatim>\<open>severity\<close>.
\<close>

definition issue_child :: "issue_item option \<Rightarrow> string + element" where
  "issue_child i =
     (case i of
        None \<Rightarrow> Inl (null_read ''severity'')
      | Some issue \<Rightarrow> Inr (issue_element issue))"

text \<open>
  \<^verbatim>\<open>result.issues.slice(0, 5).forEach\<close>: a string has \<^verbatim>\<open>slice\<close>, which gives a string,
  and that has no \<^verbatim>\<open>forEach\<close>; another value with a \<^verbatim>\<open>length\<close> has no \<^verbatim>\<open>slice\<close>.
\<close>

definition showAuditResults :: "result \<Rightarrow> element list \<Rightarrow> string + element list" where
  "showAuditResults result container =
     (let withSummary =
            container
              @ [\<lparr>tagName = ''h4'', className = [], innerHTML = ''Formula Audit Results''\<rparr>]
              @ [\<lparr>tagName = ''div'', className = ''result-item'',
                  innerHTML = summary_html (audit_summary result)\<rparr>]
      in if has_items (issues result)
         then (case issues result of
                 Array is \<Rightarrow>
                   map_sum id (\<lambda>items. withSummary @ items) (for_each issue_child (take 5 is))
               | NotArray kind \<Rightarrow>
                   if kind = NonEmptyString
                   then Inl (not_a_function ''result.issues.slice(...).forEach'')
                   else Inl (not_a_function ''result.issues.slice'')
               | Falsy \<Rightarrow> Inr withSummary)
         else Inr withSummary)"

definition suggestions_part :: "analysis_item \<Rightarrow> string + string" where
  \<open>suggestions_part analysis =
     (if has_items (an_suggestions analysis)
      then map_sum id
             (\<lambda>joined. ''<p><strong>Suggestions:</strong> '' @ joined @ ''</p>'')
             (join_field ''analysis.suggestions'' (an_suggestions analysis))
      else Inr [])\<close>

definition analysis_html :: "analysis_item \<Rightarrow> string + string" where
  \<open>analysis_html analysis =
     map_sum id
       (\<lambda>suggestions.
          ''<div class="result-header"><strong>'' @ toStr (an_address analysis)
            @ ''</strong><span class="confidence-badge">'' @ toStr (an_confidence analysis)
            @ ''% confidence</span></div><div class="result-content">''
            @ ''<p><strong>Formula:</strong> <code>'' @ toStr (an_original_formula analysis)
            @ ''</code></p><p><strong>Analysis:</strong> '' @ toStr (an_explanation analysis)
            @ ''</p>''
            @ (if truthy (an_has_errors analysis)
               then ''<p><strong>Issues:</strong> '' @ toStr (an_error_details analysis) @ ''</p>''
               else [])
            @ suggestions
            @ (if truthy (an_improved_formula analysis)
               then ''<p><strong>Improved Formula:</strong> <code>''
                      @ toStr (an_improved_formula analysis) @ ''</code></p>''
               else [])
            @ ''</div>'')
       (suggestions_part analysis)\<close>

text \<open>
  The body of the \<^verbatim>\<open>forEach\<close> over the analyses: the first field it reads from its
  element is \<^verbatim>\<open>has_errors\<close>.
\<close>

definition analysis_child :: "analysis_item option \<Rightarrow> string + element" where
  "analysis_child a =
     (case a of
        None \<Rightarrow> Inl (null_read ''has_errors'')
      | Some analysis \<Rightarrow>
          map_sum id
            (\<lambda>html. \<lparr>tagName = ''div'',
                      className = ''result-item ''
                        @ (if truthy (an_has_errors analysis) then ''result-error''
                           else ''result-success''),
                      innerHTML = html\<rparr>)
            (analysis_html analysis))"

definition showSmartAnalysis ::
  "analysis_item option js_array \<Rightarrow> element list \<Rightarrow> string + element list" where
  "showSmartAnalysis analysisResults container =
     (case analysisResults of
        Array as \<Rightarrow>
          map_sum id
            (\<lambda>items. container
                @ [\<lparr>tagName = ''h4'', className = [], innerHTML = ''Smart Formula Analysis''\<rparr>]
                @ items)
            (for_each analysis_child as)
      | Falsy \<Rightarrow> Inl (not_a_function ''analysisResults.forEach'')
      | NotArray kind \<Rightarrow> Inl (not_a_function ''analysisResults.forEach''))"

definition showConsolidationResults :: "result \<Rightarrow> element list \<Rightarrow> element list" where
  \<open>showConsolidationResults result container =
     container
       @ [\<lparr>tagName = ''div'', className = ''result-item result-success'',
           innerHTML =
             ''<div class="result-header"><strong>File Consolidation Complete</strong></div>''
               @ ''<div class="result-content"><p><strong>Output File:</strong> ''
               @ toStr (consolidated_file result)
               @ ''</p><p><strong>Rows Merged:</strong> '' @ toStr (rows_merged result)
               @ ''</p><p><strong>Files Processed:</strong> '' @ toStr (files_processed result)
               @ ''</p></div>''\<rparr>]\<close>

text \<open>The function mapped over \<^verbatim>\<open>result.results\<close>: it reads \<^verbatim>\<open>result\<close> first.\<close>

definition result_li :: "nl_item option \<Rightarrow> string + string" where
  "result_li e =
     (case e of
        None \<Rightarrow> Inl (null_read ''result'')
      | Some r \<Rightarrow> Inr (''<li>'' @ toStr (js_or (nl_result r) (nl_action r)) @ ''</li>''))"

definition results_part :: "result \<Rightarrow> string + string" where
  "results_part result =
     (if has_items (results result)
      then (case results result of
              Array rs \<Rightarrow>
                map_sum id (\<lambda>items. ''<ul>'' @ concat items @ ''</ul>'') (for_each result_li rs)
            | Falsy \<Rightarrow> Inl (not_a_function ''result.results.map'')
            | NotArray kind \<Rightarrow> Inl (not_a_function ''result.results.map''))
      else Inr [])"

definition showNaturalLanguageResults :: "result \<Rightarrow> element list \<Rightarrow> string + element list" where
  \<open>showNaturalLanguageResults result container =
     map_sum id
       (\<lambda>list. container
           @ [\<lparr>tagName = ''div'', className = ''result-item result-success'',
               innerHTML =
                 ''<div class="result-header"><strong>'' @ toStr (operation_type result)
                   @ '' Operation Complete</strong></div><div class="result-content"><p>''
                   @ toStr (summary result) @ ''</p>'' @ list @ ''</div>''\<rparr>])
       (results_part result)\<close>

definition showGenericResults :: "result \<Rightarrow> element list \<Rightarrow> element list" where
  \<open>showGenericResults result container =
     container
       @ [\<lparr>tagName = ''div'', className = ''result-item'',
           innerHTML =
             ''<div class="result-header"><strong>Operation Result</strong></div>''
               @ ''<div class="result-content"><pre>'' @ json_text result @ ''</pre></div>''\<rparr>]\<close>

text \<open>
  \<^verbatim>\<open>showResults\<close> empties the container and picks the renderer by the first field of
  the result that is truthy: an array, also an empty one, is.
\<close>

definition showResults :: "result \<Rightarrow> string \<Rightarrow> app \<Rightarrow> string + app" where
  "showResults result originalQuery st =
     map_sum id (\<lambda>children. st\<lparr>results_content := children\<rparr>)
       (if explanations result \<noteq> Falsy then showFormulaExplanations (explanations result) []
        else if issues result \<noteq> Falsy then showAuditResults result []
        else if analysis_results result \<noteq> Falsy
        then showSmartAnalysis (analysis_results result) []
        else if truthy (consolidated_file result) then Inr (showConsolidationResults result [])
        else if truthy (operation_type result) then showNaturalLanguageResults result []
        else Inr (showGenericResults result []))"

subsection \<open>Selected files\<close>

definition mockFiles :: "file_entry list" where
  "mockFiles =
     [\<lparr>name = ''Q1_Sales.xlsx'', path = ''C:'' @ [CHR 0x5C] @ ''Reports'' @ [CHR 0x5C] @ ''Q1_Sales.xlsx''\<rparr>,
      \<lparr>name = ''Q2_Sales.xlsx'', path = ''C:'' @ [CHR 0x5C] @ ''Reports'' @ [CHR 0x5C] @ ''Q2_Sales.xlsx''\<rparr>,
      \<lparr>name = ''Budget_2024.xlsx'',
       path = ''C:'' @ [CHR 0x5C] @ ''Finance'' @ [CHR 0x5C] @ ''Budget_2024.xlsx''\<rparr>]"

definition file_html :: "nat \<times> file_entry \<Rightarrow> string" where
  \<open>file_html p =
     (case p of (index, file) \<Rightarrow>
        ''<div class="file-item"><div class="file-info"><div class="file-name">'' @ name file
          @ ''</div><div class="file-path">'' @ path file
          @ ''</div></div><div class="file-remove" onclick="removeFile('' @ string_of_nat index
          @ '')"><i class="ms-Icon ms-Icon--Cancel"></i></div></div>'')\<close>

definition updateSelectedFilesList :: "app \<Rightarrow> app" where
  "updateSelectedFilesList st =
     st\<lparr>selected_files_html := concat (map file_html (enumerate 0 (selectedFiles st)))\<rparr>"

text \<open>The body of the \<^verbatim>\<open>forEach\<close> of \<^verbatim>\<open>browseFiles\<close>, and the loop over the files to add.\<close>

definition add_file :: "file_entry \<Rightarrow> file_entry list \<Rightarrow> file_entry list" where
  "add_file file files =
     (if find (\<lambda>f. path f = path file) files = None then files @ [file] else files)"

fun add_files :: "file_entry list \<Rightarrow> file_entry list \<Rightarrow> file_entry list" where
  "add_files [] files = files"
| "add_files (file # rest) files = add_files rest (add_file file files)"

definition browseFiles :: "app \<Rightarrow> app" where
  "browseFiles st =
     updateSelectedFilesList (st\<lparr>selectedFiles := add_files mockFiles (selectedFiles st)\<rparr>)"

text \<open>
  \<^verbatim>\<open>xs.splice(index, 1)\<close>: a negative index counts from the end, an index past the end
  removes nothing.
\<close>

definition splice1 :: "int \<Rightarrow> 'a list \<Rightarrow> 'a list" where
  "splice1 index xs =
     (let len = int (length xs);
          start = (if index < 0 then max (len + index) 0 else min index len)
      in take (nat start) xs @ drop (Suc (nat start)) xs)"

definition removeFile :: "int \<Rightarrow> app \<Rightarrow> app" where
  "removeFile index st =
     updateSelectedFilesList (st\<lparr>selectedFiles := splice1 index (selectedFiles st)\<rparr>)"

subsection \<open>History\<close>

definition history_item_html :: "history_item \<Rightarrow> string" where
  \<open>history_item_html item =
     ''<div class="history-item" onclick="repeatOperation('' @ [CHR 0x27] @ h_query item
       @ [CHR 0x27] @ '')"><div class="history-query">'' @ h_query item
       @ ''</div><div class="history-timestamp">'' @ h_timestamp item @ ''</div></div>''\<close>

definition updateHistoryDisplay :: "app \<Rightarrow> app" where
  \<open>updateHistoryDisplay st =
     (if length (operationHistory st) = 0
      then st\<lparr>history_content := ''<p class="ms-fontColor-neutralSecondary">No operations yet</p>''\<rparr>
      else st\<lparr>history_content := concat (map history_item_html (operationHistory st))\<rparr>)\<close>

definition saveHistory :: "app \<Rightarrow> app" where
  "saveHistory st =
     (if storage_fails st then st
      else st\<lparr>lyncformula_history := Some (Json (operationHistory st))\<rparr>)"

text \<open>
  \<^verbatim>\<open>addToHistory\<close> reads the clock twice: \<open>now\<close> is \<^verbatim>\<open>Date.now()\<close> and \<open>nowText\<close> is
  \<^verbatim>\<open>new Date().toLocaleString()\<close>.
\<close>

definition addToHistory :: "int \<Rightarrow> string \<Rightarrow> string \<Rightarrow> result \<Rightarrow> app \<Rightarrow> app" where
  "addToHistory now nowText query result st =
     (let historyItem = \<lparr>h_id = now, h_query = query, h_result = result, h_timestamp = nowText\<rparr>;
          unshifted = historyItem # operationHistory st;
          kept = (if length unshifted > 20 then take 20 unshifted else unshifted)
      in saveHistory (updateHistoryDisplay (st\<lparr>operationHistory := kept\<rparr>)))"

definition repeatOperation :: "string \<Rightarrow> app \<Rightarrow> app" where
  "repeatOperation query st = validateInput (st\<lparr>input_value := query\<rparr>)"

definition clearHistory :: "app \<Rightarrow> app" where
  "clearHistory st = saveHistory (updateHistoryDisplay (st\<lparr>operationHistory := []\<rparr>))"

definition loadHistory :: "app \<Rightarrow> app" where
  "loadHistory st =
     (case lyncformula_history st of
        None \<Rightarrow> st
      | Some Corrupt \<Rightarrow> st
      | Some (Json h) \<Rightarrow> updateHistoryDisplay (st\<lparr>operationHistory := h\<rparr>))"

subsection \<open>The connection monitor\<close>

text \<open>
  \<^verbatim>\<open>checkServiceConnection\<close> sends its request at once: \<open>checkServiceConnection_fetch\<close>
  records the URL it goes to. \<open>checkServiceConnection\<close> is the rest of the function, run
  when the request has ended with \<open>outcome\<close>; its \<^verbatim>\<open>try\<close> block either returns the new
  state or throws (\<open>Inl\<close>), and the \<^verbatim>\<open>catch\<close> block handles every throw. The only
  throw that comes after an assignment is the read of a field of a \<^verbatim>\<open>null\<close> body, and
  the \<^verbatim>\<open>catch\<close> block assigns again what was assigned before it.
\<close>

definition checkServiceConnection_fetch :: "app \<Rightarrow> app" where
  "checkServiceConnection_fetch st =
     st\<lparr>health_checks := health_checks st @ [serviceUrl st @ ''/health'']\<rparr>"

definition checkServiceConnection_try :: "health fetch_outcome \<Rightarrow> app \<Rightarrow> string + app" where
  "checkServiceConnection_try outcome st =
     (case outcome of
        NetworkError message \<Rightarrow> Inl message
      | HttpResponse status statusText body \<Rightarrow>
          if response_ok status
          then (case body of
                  Unparseable message \<Rightarrow> Inl message
                | JsonNull \<Rightarrow> Inl (null_read ''service'')
                | JsonValue data \<Rightarrow>
                    Inr (validateInput
                      (st\<lparr>connectionStatus := Connected,
                          status_indicator_class := ''status-indicator connected'',
                          status_text := ''Connected to '' @ toStr (service data) @ '' v''
                            @ toStr (version data)\<rparr>)))
          else Inl (''Service returned '' @ string_of_nat status))"

definition checkServiceConnection :: "health fetch_outcome \<Rightarrow> app \<Rightarrow> app" where
  "checkServiceConnection outcome st =
     (case checkServiceConnection_try outcome st of
        Inr st' \<Rightarrow> st'
      | Inl err \<Rightarrow>
          st\<lparr>connectionStatus := Error,
              status_indicator_class := ''status-indicator error'',
              status_text := ''Service unavailable - Check if Python service is running'',
              submit_disabled := True\<rparr>)"

subsection \<open>Settings\<close>

definition loadSettings :: "app \<Rightarrow> app" where
  "loadSettings st =
     (case lyncformula_settings st of
        None \<Rightarrow> st
      | Some Corrupt \<Rightarrow> st
      | Some (Json settings) \<Rightarrow>
          (let st1 = (case s_serviceUrl settings of
                        None \<Rightarrow> st
                      | Some url \<Rightarrow>
                          if url \<noteq> [] then st\<lparr>serviceUrl := url, service_url_value := url\<rparr>
                          else st);
               st2 = (case s_llmModel settings of
                        None \<Rightarrow> st1
                      | Some model \<Rightarrow> if model \<noteq> [] then st1\<lparr>llm_model_value := model\<rparr> else st1)
           in (case s_autoBackup settings of
                 None \<Rightarrow> st2
               | Some b \<Rightarrow> st2\<lparr>auto_backup_checked := b\<rparr>)))"

definition saveSettings :: "app \<Rightarrow> app" where
  "saveSettings st =
     (let settings = \<lparr>s_serviceUrl = Some (service_url_value st),
                      s_llmModel = Some (llm_model_value st),
                      s_autoBackup = Some (auto_backup_checked st)\<rparr>
      in if storage_fails st then showError ''Failed to save settings'' st
         else showNotification ''Settings saved successfully''
                (hideSettings
                  (checkServiceConnection_fetch
                    (st\<lparr>lyncformula_settings := Some (Json settings),
                        serviceUrl := service_url_value st\<rparr>))))"

subsection \<open>Submitting a request\<close>

text \<open>
  \<^verbatim>\<open>handleSubmitRequest\<close> in three parts. \<open>handleSubmitRequest\<close> runs up to the first
  \<^verbatim>\<open>await\<close>: it reads the input and, unless it is blank, shows the loading overlay and
  waits for the Excel context. \<open>handleSubmitRequest_send\<close> is what call \<open>i\<close> does with the
  context promise: resolved, it builds the request and sends it; rejected, it goes to the
  \<^verbatim>\<open>catch\<close> and the \<^verbatim>\<open>finally\<close>; pending, it does nothing.
  \<open>handleSubmitRequest_done\<close> runs when that request has ended with \<open>outcome\<close>: the rest of
  the \<^verbatim>\<open>try\<close> block (\<open>handleSubmitRequest_try\<close>, \<open>Inl\<close> for a throw), the \<^verbatim>\<open>catch\<close> and
  the \<^verbatim>\<open>finally\<close>. The only throw that comes after a change of the page is a renderer's,
  and what it changed, the results container, is what the \<^verbatim>\<open>catch\<close> block overwrites.
\<close>

definition remove_nth :: "nat \<Rightarrow> 'a list \<Rightarrow> 'a list" where
  "remove_nth i xs = take i xs @ drop (Suc i) xs"

definition handleSubmitRequest :: "app \<Rightarrow> app" where
  "handleSubmitRequest st =
     (let query = trim (input_value st) in
      if query = [] then showError ''Please enter a request'' st
      else (showLoading True st)\<lparr>pending := pending st @ [AwaitContext query]\<rparr>)"

definition handleSubmitRequest_send :: "nat \<Rightarrow> string \<Rightarrow> excel_run \<Rightarrow> app \<Rightarrow> app" where
  "handleSubmitRequest_send i query excelRun st =
     (case getCurrentExcelContext excelRun of
        Resolved ctx \<Rightarrow>
          (let requestData = \<lparr>rq_query = query, rq_files = selectedFiles st, rq_context = ctx\<rparr>;
               endpoint = determineEndpoint st query
           in st\<lparr>pending := (pending st)[i := AwaitResponse query (serviceUrl st @ endpoint) requestData]\<rparr>)
      | Rejected message \<Rightarrow>
          (let st' = showLoading False (showError (''Request failed: '' @ message) st)
           in st'\<lparr>pending := remove_nth i (pending st')\<rparr>)
      | Pending \<Rightarrow> st)"

definition handleSubmitRequest_try ::
  "string \<Rightarrow> result fetch_outcome \<Rightarrow> int \<Rightarrow> string \<Rightarrow> app \<Rightarrow> string + app" where
  "handleSubmitRequest_try query outcome now nowText st =
     (case outcome of
        NetworkError message \<Rightarrow> Inl message
      | HttpResponse status statusText body \<Rightarrow>
          if \<not> response_ok status
          then Inl (''HTTP '' @ string_of_nat status @ '': '' @ statusText)
          else (case body of
                  Unparseable message \<Rightarrow> Inl message
                | JsonNull \<Rightarrow> Inl (null_read ''success'')
                | JsonValue result \<Rightarrow>
                    if truthy (success result)
                    then (case showResults result query st of
                            Inl message \<Rightarrow> Inl message
                          | Inr shown \<Rightarrow>
                              Inr (hideFileSelection
                                (validateInput
                                  ((addToHistory now nowText query result shown)
                                     \<lparr>input_value := []\<rparr>))))
                    else Inr (showError
                           (toStr (js_or (r_error result) (JStr ''Operation failed''))) st)))"

definition handleSubmitRequest_done ::
  "nat \<Rightarrow> string \<Rightarrow> result fetch_outcome \<Rightarrow> int \<Rightarrow> string \<Rightarrow> app \<Rightarrow> app" where
  "handleSubmitRequest_done i query outcome now nowText st =
     (let st' = (case handleSubmitRequest_try query outcome now nowText st of
                   Inr st1 \<Rightarrow> st1
                 | Inl message \<Rightarrow> showError (''Request failed: '' @ message) st);
          st'' = showLoading False st'
      in st''\<lparr>pending := remove_nth i (pending st'')\<rparr>)"

subsection \<open>Start-up and the events of the page\<close>

definition initializeTaskPane :: "app \<Rightarrow> app" where
  "initializeTaskPane st = loadHistory (loadSettings (checkServiceConnection_fetch st))"

text \<open>The timer of \<^verbatim>\<open>setupInputMonitoring\<close>, one second after the last edit of the input.\<close>

definition input_idle :: "app \<Rightarrow> app" where
  "input_idle st =
     (let text = trim (input_value st) in
      if (js_includes (toLowerCase text) ''file'' \<or> js_includes (toLowerCase text) ''consolidate''
            \<or> js_includes (toLowerCase text) ''merge'')
           \<and> length (selectedFiles st) = 0
      then showFileSelection st
      else st)"

text \<open>
  What can happen to the page: what the user does, the timers, and the settling of a
  promise an earlier handler waits for (with what it settles with). A click on the
  submit button reaches its listener only while the button is enabled; Ctrl+Enter in the
  input and the quick-action buttons call \<^verbatim>\<open>handleSubmitRequest\<close> whatever the state is.
  The help panel and the window's error listener, which only replace the content of the
  results container, are left out.
\<close>

datatype event =
    Input string
  | InputIdle
  | ClickSubmit
  | CtrlEnter
  | ClickAuditSheet
  | ClickExplainFormulas
  | ClickConsolidateFiles
  | ClickBrowseFiles
  | ClickRemoveFile int
  | ClickHistoryItem nat
  | ClickClearHistory
  | ClickSettings
  | ClickCloseSettings
  | EditSettings string string bool
  | ClickSaveSettings
  | NotificationTimeout
  | HealthTimer
  | HealthSettled nat "health fetch_outcome"
  | ContextSettled nat excel_run
  | ResponseSettled nat "result fetch_outcome" int string

fun step :: "event \<Rightarrow> app \<Rightarrow> app" where
  "step (Input text) st = validateInput (st\<lparr>input_value := text\<rparr>)"
| "step InputIdle st = input_idle st"
| "step ClickSubmit st = (if submit_disabled st then st else handleSubmitRequest st)"
| "step CtrlEnter st = handleSubmitRequest st"
| "step ClickAuditSheet st =
     handleSubmitRequest
       (st\<lparr>input_value := ''Audit all formulas in the current sheet for errors and issues''\<rparr>)"
| "step ClickExplainFormulas st =
     handleSubmitRequest
       (st\<lparr>input_value := ''Explain all formulas in the current sheet in plain English''\<rparr>)"
| "step ClickConsolidateFiles st =
     showFileSelection
       (st\<lparr>input_value := ''Consolidate multiple Excel files into a single summary report''\<rparr>)"
| "step ClickBrowseFiles st = browseFiles st"
| "step (ClickRemoveFile index) st = removeFile index st"
| "step (ClickHistoryItem k) st =
     (if k < length (operationHistory st)
      then repeatOperation (h_query (operationHistory st ! k)) st
      else st)"
| "step ClickClearHistory st = clearHistory st"
| "step ClickSettings st = showSettings st"
| "step ClickCloseSettings st = hideSettings st"
| "step (EditSettings url model backup) st =
     st\<lparr>service_url_value := url, llm_model_value := model, auto_backup_checked := backup\<rparr>"
| "step ClickSaveSettings st = saveSettings st"
| "step NotificationTimeout st = st\<lparr>notifications := tl (notifications st)\<rparr>"
| "step HealthTimer st = checkServiceConnection_fetch st"
| "step (HealthSettled k outcome) st =
     (if k < length (health_checks st)
      then checkServiceConnection outcome (st\<lparr>health_checks := remove_nth k (health_checks st)\<rparr>)
      else st)"
| "step (ContextSettled i excelRun) st =
     (if i < length (pending st)
      then (case pending st ! i of
              AwaitContext query \<Rightarrow> handleSubmitRequest_send i query excelRun st
            | AwaitResponse query url requestData \<Rightarrow> st)
      else st)"
| "step (ResponseSettled i outcome now nowText) st =
     (if i < length (pending st)
      then (case pending st ! i of
              AwaitResponse query url requestData \<Rightarrow>
                handleSubmitRequest_done i query outcome now nowText st
            | AwaitContext query \<Rightarrow> st)
      else st)"

definition run :: "event list \<Rightarrow> app \<Rightarrow> app" where
  "run events st = fold step events st"

text \<open>The requests of the main action that have been sent and not answered.\<close>

fun is_request :: "task \<Rightarrow> bool" where
  "is_request (AwaitResponse query url requestData) = True"
| "is_request (AwaitContext query) = False"

definition in_flight :: "app \<Rightarrow> task list" where
  "in_flight st = filter is_request (pending st)"

text \<open>
  A page as the script finds it: the globals as their declarations initialise them,
  nothing stored, no call in progress. The page's markup is not part of the sources;
  the form is taken to be empty, the submit button disabled and the overlay hidden.
\<close>

definition fresh_page :: app where
  "fresh_page =
     \<lparr>serviceUrl = ''http://127.0.0.1:8700'', connectionStatus = Connecting,
      selectedFiles = [], operationHistory = [], input_value = [], submit_disabled = True,
      loading_display = ''none'', status_indicator_class = ''status-indicator'',
      status_text = [], results_content = [], file_selection_display = ''none'',
      selected_files_html = [], history_content = [], settings_panel_display = ''none'',
      service_url_value = ''http://127.0.0.1:8700'', llm_model_value = [],
      auto_backup_checked = False, notifications = [], lyncformula_history = None,
      lyncformula_settings = None, storage_fails = False, health_checks = [], pending = []\<rparr>"

subsection \<open>The properties' own notions\<close>

text \<open>
  The intent router as the specification words it: a keyword is contained in a text,
  case-insensitively, when some position of the text starts with the keyword's
  characters up to case; the categories are tried in their fixed order and the first
  one with a keyword in the text wins.
\<close>

fun ci_prefix :: "string \<Rightarrow> string \<Rightarrow> bool" where
  "ci_prefix [] text = True"
| "ci_prefix (k # ks) [] = False"
| "ci_prefix (k # ks) (c # cs) = (lower_char c = lower_char k \<and> ci_prefix ks cs)"

fun ci_contains :: "string \<Rightarrow> string \<Rightarrow> bool" where
  "ci_contains [] keyword = ci_prefix keyword []"
| "ci_contains (c # cs) keyword = (ci_prefix keyword (c # cs) \<or> ci_contains cs keyword)"

definition mentions :: "string \<Rightarrow> string list \<Rightarrow> bool" where
  "mentions text keywords = list_ex (ci_contains text) keywords"

definition intent_router :: "bool \<Rightarrow> string \<Rightarrow> string" where
  "intent_router filesSelected text =
     (if mentions text [''audit'', ''check'', ''analyze'']
      then (if filesSelected \<or> mentions text [''file'']
            then ''/smart_analysis'' else ''/audit_formulas'')
      else if mentions text [''explain'', ''describe''] then ''/explain_sheet''
      else if mentions text [''consolidate'', ''merge'', ''combine''] then ''/consolidate_files''
      else if mentions text [''fix'', ''repair''] then ''/apply_fixes''
      else ''/natural_language'')"

text \<open>A sequence of additions to the history: each with the clock's two readings.\<close>

record addition =
  a_now :: int
  a_nowText :: string
  a_query :: string
  a_result :: result

definition entry_of :: "addition \<Rightarrow> history_item" where
  "entry_of a =
     \<lparr>h_id = a_now a, h_query = a_query a, h_result = a_result a, h_timestamp = a_nowText a\<rparr>"

fun add_all :: "addition list \<Rightarrow> app \<Rightarrow> app" where
  "add_all [] st = st"
| "add_all (a # rest) st =
     add_all rest (addToHistory (a_now a) (a_nowText a) (a_query a) (a_result a) st)"

text \<open>
  The events that call \<^verbatim>\<open>handleSubmitRequest\<close>, and the runs in which none of them
  happens while the loading overlay is shown.
\<close>

fun starts_submission :: "event \<Rightarrow> bool" where
  "starts_submission ClickSubmit = True"
| "starts_submission CtrlEnter = True"
| "starts_submission ClickAuditSheet = True"
| "starts_submission ClickExplainFormulas = True"
| "starts_submission e = False"

fun overlay_respected :: "event list \<Rightarrow> app \<Rightarrow> bool" where
  "overlay_respected [] st = True"
| "overlay_respected (e # es) st =
     ((if starts_submission e then loading_display st \<noteq> ''flex'' else True)
      \<and> overlay_respected es (step e st))"





text \<open>
  The state of the submit flow when one call at most is in progress: the loading overlay
  is shown exactly while that call has not returned.
\<close>

definition one_at_a_time :: "app \<Rightarrow> bool" where
  "one_at_a_time st =
     (if loading_display st = ''flex'' then length (pending st) = 1 else pending st = [])"

subsection \<open>Example data\<close>

text \<open>An example host: a sheet with data and a selected range.\<close>

definition sample_host :: excel_host where
  "sample_host =
     \<lparr>sheet_sync = Inr \<lparr>ws_name = ''Sheet1'', ur_address = ''Sheet1!A1:C10'',
                         ur_rowCount = 10, ur_columnCount = 3\<rparr>,
      selection_sync = Inr ''Sheet1!B2''\<rparr>"

definition sample_result :: result where
  "sample_result =
     \<lparr>success = JBool True, r_error = JUndefined, explanations = Falsy, issues = Falsy,
      audit_summary = None, analysis_results = Falsy, consolidated_file = JUndefined,
      rows_merged = JUndefined, files_processed = JUndefined, operation_type = JUndefined,
      summary = JUndefined, results = Falsy, json_text = ''{}''\<rparr>"

text \<open>Twenty-one additions to the history, told apart by the clock.\<close>

definition numbered :: "nat \<Rightarrow> addition" where
  "numbered k =
     \<lparr>a_now = int k, a_nowText = string_of_nat k, a_query = ''audit'', a_result = sample_result\<rparr>"

definition twenty_one :: "addition list" where
  "twenty_one = map numbered [0..<21]"

text \<open>
  Two audit responses with seven issues: one without an \<^verbatim>\<open>audit_summary\<close>, one whose
  summary counts seven.
\<close>

definition sample_issue :: issue_item where
  "sample_issue =
     \<lparr>title = JStr ''Division by zero'', severity = JStr ''high'',
      description = JStr ''The divisor is an empty cell'', cell_address = JStr ''B2'',
      suggested_fix = JStr ''Wrap the formula in IFERROR''\<rparr>"

definition seven_issues :: result where
  "seven_issues =
     \<lparr>success = JBool True, r_error = JUndefined, explanations = Falsy,
      issues = Array (replicate 7 (Some sample_issue)), audit_summary = None,
      analysis_results = Falsy, consolidated_file = JUndefined, rows_merged = JUndefined,
      files_processed = JUndefined, operation_type = JUndefined, summary = JUndefined,
      results = Falsy, json_text = []\<rparr>"

definition seven_counted :: result where
  "seven_counted =
     seven_issues\<lparr>audit_summary := Some \<lparr>total_issues = JNum 7, severity_breakdown = None\<rparr>\<rparr>"





text \<open>The page with the settings form filled in, before the click on "save".\<close>

definition page_to_save :: app where
  "page_to_save = step (EditSettings ''http://x'' ''m'' True) fresh_page"

text \<open>Two hosts that fail: one at the selection, one at the worksheet.\<close>

definition host_without_selection :: excel_host where
  "host_without_selection = sample_host\<lparr>selection_sync := Inl ''The current selection is invalid''\<rparr>"

definition host_failing :: excel_host where
  "host_failing = sample_host\<lparr>sheet_sync := Inl ''The request context is gone''\<rparr>"

section \<open>Properties\<close>

subsection \<open>What the handlers leave alone\<close>

lemmas frame_defs =
  validateInput_def showLoading_def showError_def showFileSelection_def
  hideFileSelection_def showSettings_def hideSettings_def showNotification_def
  updateSelectedFilesList_def updateHistoryDisplay_def saveHistory_def
  checkServiceConnection_fetch_def

lemma selectedFiles_frame [simp]:
  "selectedFiles (validateInput st) = selectedFiles st"
  "selectedFiles (showLoading b st) = selectedFiles st"
  "selectedFiles (showError m st) = selectedFiles st"
  "selectedFiles (showFileSelection st) = selectedFiles st"
  "selectedFiles (hideFileSelection st) = selectedFiles st"
  "selectedFiles (showSettings st) = selectedFiles st"
  "selectedFiles (hideSettings st) = selectedFiles st"
  "selectedFiles (showNotification m st) = selectedFiles st"
  "selectedFiles (updateHistoryDisplay st) = selectedFiles st"
  "selectedFiles (saveHistory st) = selectedFiles st"
  "selectedFiles (checkServiceConnection_fetch st) = selectedFiles st"
  by (simp_all add: frame_defs Let_def)

lemma showResults_shown:
  "showResults r q st = Inr shown \<Longrightarrow> \<exists>children. shown = st\<lparr>results_content := children\<rparr>"
  unfolding showResults_def by (auto simp: map_sum_def split: sum.splits)

lemma try_returns:
  "handleSubmitRequest_try q outcome now nowText st = Inr st' \<Longrightarrow>
     selectedFiles st' = selectedFiles st \<and> pending st' = pending st
     \<and> loading_display st' = loading_display st"
  by (auto simp: handleSubmitRequest_try_def frame_defs addToHistory_def Let_def
      dest!: showResults_shown split: fetch_outcome.splits body.splits sum.splits if_splits)

lemma selectedFiles_addToHistory [simp]:
  "selectedFiles (addToHistory now nowText q r st) = selectedFiles st"
  by (simp add: addToHistory_def Let_def)

lemma selectedFiles_done [simp]:
  "selectedFiles (handleSubmitRequest_done i q outcome now nowText st) = selectedFiles st"
  by (auto simp: handleSubmitRequest_done_def Let_def showLoading_def showError_def
      dest: try_returns split: sum.splits)

lemma selectedFiles_handlers [simp]:
  "selectedFiles (handleSubmitRequest st) = selectedFiles st"
  "selectedFiles (handleSubmitRequest_send i q excelRun st) = selectedFiles st"
  "selectedFiles (checkServiceConnection houtcome st) = selectedFiles st"
  "selectedFiles (saveSettings st) = selectedFiles st"
  "selectedFiles (loadSettings st) = selectedFiles st"
  "selectedFiles (clearHistory st) = selectedFiles st"
  "selectedFiles (repeatOperation q st) = selectedFiles st"
  "selectedFiles (input_idle st) = selectedFiles st"
  by (simp_all add: handleSubmitRequest_def handleSubmitRequest_send_def
      checkServiceConnection_def checkServiceConnection_try_def saveSettings_def
      loadSettings_def clearHistory_def repeatOperation_def input_idle_def Let_def
      split: promise.splits fetch_outcome.splits body.splits sum.splits option.splits stored.splits)

subsection \<open>The intent router\<close>

lemma ci_prefix_iff: "ci_prefix k s \<longleftrightarrow> prefix (map lower_char k) (map lower_char s)"
  by (induction k s rule: ci_prefix.induct) auto

lemma ci_contains_iff:
  "ci_contains s k \<longleftrightarrow> js_includes (map lower_char s) (map lower_char k)"
  by (induction s) (auto simp: ci_prefix_iff)

lemma js_includes_sublist: "js_includes s k \<longleftrightarrow> sublist k s"
  by (induction s) (auto simp: sublist_Cons_right)

lemma includes_lower:
  "toLowerCase k = k \<Longrightarrow> js_includes (toLowerCase s) k = ci_contains s k"
  by (simp add: ci_contains_iff toLowerCase_def)

lemma keywords_lower:
  "toLowerCase ''audit'' = ''audit''" "toLowerCase ''check'' = ''check''"
  "toLowerCase ''analyze'' = ''analyze''" "toLowerCase ''file'' = ''file''"
  "toLowerCase ''explain'' = ''explain''" "toLowerCase ''describe'' = ''describe''"
  "toLowerCase ''consolidate'' = ''consolidate''" "toLowerCase ''merge'' = ''merge''"
  "toLowerCase ''combine'' = ''combine''" "toLowerCase ''fix'' = ''fix''"
  "toLowerCase ''repair'' = ''repair''"
  by (simp_all add: toLowerCase_def lower_char_def)

lemma determineEndpoint_router:
  "determineEndpoint st text = intent_router (selectedFiles st \<noteq> []) text"
  by (simp add: determineEndpoint_def intent_router_def mentions_def Let_def
      includes_lower keywords_lower)

text \<open>
  C1. \<^verbatim>\<open>determineEndpoint\<close> is the specification's router: lowering the text and
  searching it for the lower-case keywords is the case-insensitive search, the
  categories are tried in the order audit/check/analyze (smart analysis when a file is
  selected or the text mentions "file", else the formula audit), explain/describe,
  consolidate/merge/combine, fix/repair, and the natural-language endpoint is the
  fallback. In particular a text that contains "audit" and not "file" (both up to case)
  goes to \<^verbatim>\<open>/audit_formulas\<close> when no file is selected, and a text that contains "audit"
  goes to \<^verbatim>\<open>/smart_analysis\<close> when at least one file is selected.
\<close>

theorem determineEndpoint_routes:
  "determineEndpoint st text = intent_router (selectedFiles st \<noteq> []) text
   \<and> (ci_contains text ''audit'' \<and> \<not> ci_contains text ''file'' \<and> selectedFiles st = []
        \<longrightarrow> determineEndpoint st text = ''/audit_formulas'')
   \<and> (ci_contains text ''audit'' \<and> selectedFiles st \<noteq> []
        \<longrightarrow> determineEndpoint st text = ''/smart_analysis'')"
  by (simp add: determineEndpoint_router intent_router_def mentions_def)

theorem determineEndpoint_routes_witness:
  "ci_contains ''Audit my Sheet'' ''audit'' \<and> \<not> ci_contains ''Audit my Sheet'' ''file''
   \<and> selectedFiles fresh_page = []
   \<and> determineEndpoint fresh_page ''Audit my Sheet'' = ''/audit_formulas''
   \<and> selectedFiles (browseFiles fresh_page) \<noteq> []
   \<and> determineEndpoint (browseFiles fresh_page) ''Audit my Sheet'' = ''/smart_analysis''"
proof -
  have a: "ci_contains ''Audit my Sheet'' ''audit''"
    by (simp add: lower_char_def)
  have f: "\<not> ci_contains ''Audit my Sheet'' ''file''"
    by (simp add: lower_char_def)
  have none: "selectedFiles fresh_page = []"
    by (simp add: fresh_page_def)
  have some: "selectedFiles (browseFiles fresh_page) \<noteq> []"
    by (simp add: browseFiles_def fresh_page_def updateSelectedFilesList_def mockFiles_def
        add_file_def)
  from determineEndpoint_routes [of fresh_page "''Audit my Sheet''"] a f none
  have r1: "determineEndpoint fresh_page ''Audit my Sheet'' = ''/audit_formulas''"
    by blast
  from determineEndpoint_routes [of "browseFiles fresh_page" "''Audit my Sheet''"] a some
  have r2: "determineEndpoint (browseFiles fresh_page) ''Audit my Sheet'' = ''/smart_analysis''"
    by blast
  from a f none some r1 r2 show ?thesis by blast
qed

subsection \<open>Selected files\<close>

lemma add_file_distinct:
  "distinct (map path files) \<Longrightarrow> distinct (map path (add_file file files))"
  by (auto simp: add_file_def find_None_iff)

lemma add_files_distinct:
  "distinct (map path files) \<Longrightarrow> distinct (map path (add_files new files))"
  by (induction new arbitrary: files) (simp_all add: add_file_distinct)

lemma remove_at_distinct:
  "distinct ys \<Longrightarrow> distinct (take n ys @ drop (Suc n) ys)"
proof -
  assume d: "distinct ys"
  have "distinct (take n ys @ drop n ys)" using d by simp
  then have "set (take n ys) \<inter> set (drop n ys) = {}" by (simp only: distinct_append)
  moreover have "set (drop (Suc n) ys) \<subseteq> set (drop n ys)"
    by (simp add: set_drop_subset_set_drop)
  ultimately have "set (take n ys) \<inter> set (drop (Suc n) ys) = {}" by blast
  then show ?thesis using d by simp
qed

lemma splice1_distinct:
  "distinct (map path files) \<Longrightarrow> distinct (map path (splice1 index files))"
  using remove_at_distinct [of "map path files"]
  by (simp add: splice1_def Let_def take_map drop_map)

lemma step_distinct_paths:
  "distinct (map path (selectedFiles st)) \<Longrightarrow> distinct (map path (selectedFiles (step e st)))"
  by (cases e)
    (simp_all add: browseFiles_def removeFile_def updateSelectedFilesList_def
      add_files_distinct splice1_distinct split: task.splits)

lemma run_distinct_paths:
  "distinct (map path (selectedFiles st)) \<Longrightarrow> distinct (map path (selectedFiles (run events st)))"
  unfolding run_def by (induction events arbitrary: st) (simp_all add: step_distinct_paths)

text \<open>
  C6. \<^verbatim>\<open>selectedFiles\<close> is a list of \<^verbatim>\<open>{name, path}\<close> entries, and starting from the
  empty list the script declares, no sequence of events of the page (browsing for
  files and removing a file among them) leaves two entries with the same path in it.
\<close>

theorem selected_files_distinct_paths:
  "distinct (map path (selectedFiles (run events (st\<lparr>selectedFiles := []\<rparr>))))"
  by (rule run_distinct_paths) simp

subsection \<open>History\<close>

lemma operationHistory_addToHistory:
  "operationHistory (addToHistory now nowText q r st) =
     take 20 (\<lparr>h_id = now, h_query = q, h_result = r, h_timestamp = nowText\<rparr> # operationHistory st)"
  by (simp add: addToHistory_def saveHistory_def updateHistoryDisplay_def Let_def)

lemma add_all_history:
  "operationHistory st = take 20 h \<Longrightarrow>
   operationHistory (add_all adds st) = take 20 (rev (map entry_of adds) @ h)"
proof (induction adds arbitrary: st h)
  case Nil
  then show ?case by simp
next
  case (Cons a rest)
  have "operationHistory (addToHistory (a_now a) (a_nowText a) (a_query a) (a_result a) st)
          = take 20 (entry_of a # h)"
    using Cons.prems by (simp add: operationHistory_addToHistory entry_of_def min_def)
  from Cons.IH [OF this] show ?case by simp
qed

lemma add_all_from_empty:
  "operationHistory (add_all adds (st\<lparr>operationHistory := []\<rparr>)) = take 20 (rev (map entry_of adds))"
  using add_all_history [of "st\<lparr>operationHistory := []\<rparr>" "[]" adds] by simp

lemma take_20_rev_21: "length xs = 21 \<Longrightarrow> take 20 (rev xs) = rev (tl xs)"
proof -
  assume l: "length xs = 21"
  then obtain x rest where xs: "xs = x # rest" by (cases xs) auto
  with l have "length rest = 20" by simp
  then show ?thesis using xs by simp
qed

lemma addToHistory_stored:
  "\<not> storage_fails st \<Longrightarrow>
   lyncformula_history (addToHistory now nowText q r st)
     = Some (Json (operationHistory (addToHistory now nowText q r st)))
   \<and> \<not> storage_fails (addToHistory now nowText q r st)"
  by (simp add: addToHistory_def saveHistory_def updateHistoryDisplay_def Let_def)

lemma add_all_stored_inv:
  "lyncformula_history st = Some (Json (operationHistory st)) \<Longrightarrow> \<not> storage_fails st \<Longrightarrow>
   lyncformula_history (add_all adds st) = Some (Json (operationHistory (add_all adds st)))"
  by (induction adds arbitrary: st) (simp_all add: addToHistory_stored)

lemma add_all_stored:
  "adds \<noteq> [] \<Longrightarrow> \<not> storage_fails st \<Longrightarrow>
   lyncformula_history (add_all adds st) = Some (Json (operationHistory (add_all adds st)))"
  by (cases adds) (simp_all add: add_all_stored_inv addToHistory_stored)

lemma loadHistory_stored:
  "lyncformula_history st = Some (Json h) \<Longrightarrow> operationHistory (loadHistory st) = h"
  by (simp add: loadHistory_def updateHistoryDisplay_def)

lemma reload_history:
  "adds \<noteq> [] \<Longrightarrow> \<not> storage_fails st \<Longrightarrow>
   lyncformula_history st'' = lyncformula_history (add_all adds (st\<lparr>operationHistory := []\<rparr>)) \<Longrightarrow>
   operationHistory (loadHistory st'') = take 20 (rev (map entry_of adds))"
  using add_all_stored [of adds "st\<lparr>operationHistory := []\<rparr>"] add_all_from_empty [of adds st]
  by (simp add: loadHistory_stored)

text \<open>
  C2. Starting from the empty history, after any sequence of additions the history is
  the additions in reverse order (newest first) cut to the first 20: it never holds more
  than 20 entries, and every single addition puts its entry at the front of what was
  there. After 21 additions the history is the last 20 of them, newest first; the entry
  added first is not among them (it is not in the list, unless a later addition made
  an entry equal to it). Each addition also stores the list, and \<^verbatim>\<open>loadHistory\<close> on a page
  with this storage gives the same list back.
\<close>

theorem history_capped_newest_first:
  "operationHistory (add_all adds (st\<lparr>operationHistory := []\<rparr>)) = take 20 (rev (map entry_of adds))
   \<and> length (operationHistory (add_all adds (st\<lparr>operationHistory := []\<rparr>))) \<le> 20
   \<and> operationHistory (addToHistory now nowText q r st') =
       take 20 (\<lparr>h_id = now, h_query = q, h_result = r, h_timestamp = nowText\<rparr> # operationHistory st')
   \<and> (length adds = 21 \<longrightarrow>
        operationHistory (add_all adds (st\<lparr>operationHistory := []\<rparr>)) = rev (map entry_of (tl adds))
        \<and> (entry_of (hd adds) \<notin> set (map entry_of (tl adds)) \<longrightarrow>
             entry_of (hd adds) \<notin> set (operationHistory (add_all adds (st\<lparr>operationHistory := []\<rparr>)))))
   \<and> (adds \<noteq> [] \<and> \<not> storage_fails st
        \<and> lyncformula_history st'' = lyncformula_history (add_all adds (st\<lparr>operationHistory := []\<rparr>))
        \<longrightarrow> operationHistory (loadHistory st'') = take 20 (rev (map entry_of adds)))"
proof -
  have 1: "operationHistory (add_all adds (st\<lparr>operationHistory := []\<rparr>)) = take 20 (rev (map entry_of adds))"
    by (rule add_all_from_empty)
  have 2: "length adds = 21 \<Longrightarrow> take 20 (rev (map entry_of adds)) = rev (map entry_of (tl adds))"
    using take_20_rev_21 [of "map entry_of adds"] by (simp add: map_tl)
  show ?thesis using 1 2 reload_history [of adds st st'']
    by (simp add: operationHistory_addToHistory)
qed

theorem history_capped_newest_first_witness:
  "length twenty_one = 21
   \<and> entry_of (hd twenty_one) \<notin> set (map entry_of (tl twenty_one))
   \<and> operationHistory (add_all twenty_one (fresh_page\<lparr>operationHistory := []\<rparr>))
       = rev (map entry_of (tl twenty_one))
   \<and> entry_of (hd twenty_one)
       \<notin> set (operationHistory (add_all twenty_one (fresh_page\<lparr>operationHistory := []\<rparr>)))
   \<and> map h_id (rev (map entry_of (tl twenty_one)))
       = [20, 19, 18, 17, 16, 15, 14, 13, 12, 11, 10, 9, 8, 7, 6, 5, 4, 3, 2, 1]
   \<and> twenty_one \<noteq> [] \<and> \<not> storage_fails fresh_page
   \<and> operationHistory (loadHistory (fresh_page\<lparr>lyncformula_history :=
         lyncformula_history (add_all twenty_one (fresh_page\<lparr>operationHistory := []\<rparr>))\<rparr>))
       = take 20 (rev (map entry_of twenty_one))"
proof -
  have ne: "twenty_one \<noteq> []" and w: "\<not> storage_fails fresh_page"
    by (simp_all add: twenty_one_def fresh_page_def)
  have same: "lyncformula_history (fresh_page\<lparr>lyncformula_history :=
         lyncformula_history (add_all twenty_one (fresh_page\<lparr>operationHistory := []\<rparr>))\<rparr>)
       = lyncformula_history (add_all twenty_one (fresh_page\<lparr>operationHistory := []\<rparr>))"
    by simp
  from history_capped_newest_first [where adds = twenty_one and st = fresh_page
      and st'' = "fresh_page\<lparr>lyncformula_history :=
         lyncformula_history (add_all twenty_one (fresh_page\<lparr>operationHistory := []\<rparr>))\<rparr>"]
    ne w same
  have re: "operationHistory (loadHistory (fresh_page\<lparr>lyncformula_history :=
         lyncformula_history (add_all twenty_one (fresh_page\<lparr>operationHistory := []\<rparr>))\<rparr>))
       = take 20 (rev (map entry_of twenty_one))"
    by blast
  have l: "length twenty_one = 21"
    by (simp add: twenty_one_def)
  have d: "entry_of (hd twenty_one) \<notin> set (map entry_of (tl twenty_one))"
    by (simp add: twenty_one_def upt_rec numbered_def entry_of_def)
  have ids: "map h_id (rev (map entry_of (tl twenty_one)))
       = [20, 19, 18, 17, 16, 15, 14, 13, 12, 11, 10, 9, 8, 7, 6, 5, 4, 3, 2, 1]"
    by (simp add: twenty_one_def upt_rec numbered_def entry_of_def)
  from history_capped_newest_first [where adds = twenty_one and st = fresh_page] l d
  have h: "operationHistory (add_all twenty_one (fresh_page\<lparr>operationHistory := []\<rparr>))
       = rev (map entry_of (tl twenty_one))
     \<and> entry_of (hd twenty_one)
       \<notin> set (operationHistory (add_all twenty_one (fresh_page\<lparr>operationHistory := []\<rparr>)))"
    by blast
  from l d h ids ne w re show ?thesis by (intro conjI) simp_all
qed

subsection \<open>The submit flow\<close>

lemma pending_frame [simp]:
  "pending (validateInput st) = pending st"
  "pending (showLoading b st) = pending st"
  "pending (showError m st) = pending st"
  "pending (showFileSelection st) = pending st"
  "pending (hideFileSelection st) = pending st"
  "pending (showSettings st) = pending st"
  "pending (hideSettings st) = pending st"
  "pending (showNotification m st) = pending st"
  "pending (updateSelectedFilesList st) = pending st"
  "pending (updateHistoryDisplay st) = pending st"
  "pending (saveHistory st) = pending st"
  "pending (checkServiceConnection_fetch st) = pending st"
  by (simp_all add: frame_defs Let_def)

lemma loading_frame [simp]:
  "loading_display (validateInput st) = loading_display st"
  "loading_display (showError m st) = loading_display st"
  "loading_display (showFileSelection st) = loading_display st"
  "loading_display (hideFileSelection st) = loading_display st"
  "loading_display (showSettings st) = loading_display st"
  "loading_display (hideSettings st) = loading_display st"
  "loading_display (showNotification m st) = loading_display st"
  "loading_display (updateSelectedFilesList st) = loading_display st"
  "loading_display (updateHistoryDisplay st) = loading_display st"
  "loading_display (saveHistory st) = loading_display st"
  "loading_display (checkServiceConnection_fetch st) = loading_display st"
  by (simp_all add: frame_defs Let_def)

lemma pending_loading_others [simp]:
  "pending (addToHistory now nowText q r st) = pending st"
  "loading_display (addToHistory now nowText q r st) = loading_display st"
  "pending (checkServiceConnection houtcome st) = pending st"
  "loading_display (checkServiceConnection houtcome st) = loading_display st"
  "pending (saveSettings st) = pending st"
  "loading_display (saveSettings st) = loading_display st"
  "pending (clearHistory st) = pending st"
  "loading_display (clearHistory st) = loading_display st"
  "pending (repeatOperation q st) = pending st"
  "loading_display (repeatOperation q st) = loading_display st"
  "pending (input_idle st) = pending st"
  "loading_display (input_idle st) = loading_display st"
  "pending (browseFiles st) = pending st"
  "loading_display (browseFiles st) = loading_display st"
  "pending (removeFile k st) = pending st"
  "loading_display (removeFile k st) = loading_display st"
  by (simp_all add: addToHistory_def checkServiceConnection_def checkServiceConnection_try_def
      saveSettings_def clearHistory_def repeatOperation_def input_idle_def browseFiles_def
      removeFile_def Let_def
      split: fetch_outcome.splits body.splits sum.splits)

lemma done_pending:
  "pending (handleSubmitRequest_done i q outcome now nowText st) = remove_nth i (pending st)"
  "loading_display (handleSubmitRequest_done i q outcome now nowText st) = ''none''"
  by (auto simp: handleSubmitRequest_done_def Let_def showLoading_def
      dest: try_returns split: sum.splits)

lemma send_one:
  "one_at_a_time st \<Longrightarrow> i < length (pending st) \<Longrightarrow>
   one_at_a_time (handleSubmitRequest_send i q excelRun st)"
  by (auto simp: one_at_a_time_def handleSubmitRequest_send_def Let_def showLoading_def
      remove_nth_def split: promise.splits if_splits)

lemma start_one:
  "loading_display st \<noteq> ''flex'' \<Longrightarrow> one_at_a_time st \<Longrightarrow> one_at_a_time (handleSubmitRequest st)"
  by (simp add: one_at_a_time_def handleSubmitRequest_def Let_def showLoading_def)

lemma start_one_input:
  "loading_display st \<noteq> ''flex'' \<Longrightarrow> one_at_a_time st \<Longrightarrow>
   one_at_a_time (handleSubmitRequest (st\<lparr>input_value := v\<rparr>))"
  using start_one [of "st\<lparr>input_value := v\<rparr>"] by (simp add: one_at_a_time_def)

lemma step_one_at_a_time:
  "one_at_a_time st \<Longrightarrow> (if starts_submission e then loading_display st \<noteq> ''flex'' else True) \<Longrightarrow>
   one_at_a_time (step e st)"
proof (cases e)
  case (ContextSettled i excelRun)
  assume "one_at_a_time st"
  then show ?thesis using ContextSettled
    by (auto simp: send_one split: task.splits)
next
  case (ResponseSettled i outcome now nowText)
  assume "one_at_a_time st"
  then show ?thesis using ResponseSettled
    by (auto simp: one_at_a_time_def done_pending remove_nth_def split: task.splits if_splits)
qed (auto simp: start_one start_one_input, auto simp: one_at_a_time_def)

lemma run_one_at_a_time:
  "one_at_a_time st \<Longrightarrow> overlay_respected events st \<Longrightarrow> one_at_a_time (run events st)"
  unfolding run_def
  by (induction events arbitrary: st) (simp_all add: step_one_at_a_time)

text \<open>
  C3, as the code has it. \<^verbatim>\<open>handleSubmitRequest\<close> tests nothing but the input: with the
  overlay shown after a first Ctrl+Enter, a second Ctrl+Enter starts a second call, and
  two requests are in flight once both have their context. The same happens with two
  clicks on quick-action buttons.
\<close>

theorem two_requests_in_flight:
  "loading_display (run [Input ''audit'', CtrlEnter] fresh_page) = ''flex''
   \<and> length (in_flight (run [Input ''audit'', CtrlEnter, CtrlEnter,
        ContextSettled 0 (Calls sample_host), ContextSettled 1 (Calls sample_host)] fresh_page)) = 2
   \<and> loading_display (run [ClickAuditSheet] fresh_page) = ''flex''
   \<and> length (in_flight (run [ClickAuditSheet, ClickExplainFormulas,
        ContextSettled 0 (Calls sample_host), ContextSettled 1 (Calls sample_host)] fresh_page)) = 2"
  by (simp add: run_def fresh_page_def validateInput_def handleSubmitRequest_def trim_def
      is_space_def showLoading_def handleSubmitRequest_send_def getCurrentExcelContext_def run_callback_def
      read_sheet_def read_selection_def sample_host_def in_flight_def Let_def)

text \<open>
  C3, amended. In every run that starts with no call in progress and the overlay hidden,
  and in which no submission is started while the overlay is shown, at most one call of
  \<^verbatim>\<open>handleSubmitRequest\<close> is in progress and at most one request is in flight, and the
  overlay is shown exactly while there is one.
\<close>

theorem one_request_when_overlay_respected:
  "pending st = [] \<and> loading_display st \<noteq> ''flex'' \<and> overlay_respected events st
     \<longrightarrow> length (pending (run events st)) \<le> 1 \<and> length (in_flight (run events st)) \<le> 1
         \<and> (loading_display (run events st) = ''flex'' \<longleftrightarrow> pending (run events st) \<noteq> [])"
proof (intro impI)
  assume a: "pending st = [] \<and> loading_display st \<noteq> ''flex'' \<and> overlay_respected events st"
  then have "one_at_a_time st" by (simp add: one_at_a_time_def)
  with a have o: "one_at_a_time (run events st)" by (simp add: run_one_at_a_time)
  have "length (in_flight (run events st)) \<le> length (pending (run events st))"
    by (simp add: in_flight_def)
  with o show "length (pending (run events st)) \<le> 1 \<and> length (in_flight (run events st)) \<le> 1
         \<and> (loading_display (run events st) = ''flex'' \<longleftrightarrow> pending (run events st) \<noteq> [])"
    by (auto simp: one_at_a_time_def split: if_splits)
qed

theorem one_request_when_overlay_respected_witness:
  "pending fresh_page = [] \<and> loading_display fresh_page \<noteq> ''flex''
   \<and> overlay_respected
        [Input ''audit'', CtrlEnter, ContextSettled 0 (Calls sample_host),
         ResponseSettled 0 (NetworkError ''Failed to fetch'') 0 [], CtrlEnter] fresh_page
   \<and> length (in_flight (run
        [Input ''audit'', CtrlEnter, ContextSettled 0 (Calls sample_host),
         ResponseSettled 0 (NetworkError ''Failed to fetch'') 0 [], CtrlEnter] fresh_page)) \<le> 1"
proof -
  have p: "pending fresh_page = []" and l: "loading_display fresh_page \<noteq> ''flex''"
    by (simp_all add: fresh_page_def)
  have o: "overlay_respected
        [Input ''audit'', CtrlEnter, ContextSettled 0 (Calls sample_host),
         ResponseSettled 0 (NetworkError ''Failed to fetch'') 0 [], CtrlEnter] fresh_page"
    by (simp add: fresh_page_def validateInput_def handleSubmitRequest_def trim_def
        is_space_def showLoading_def handleSubmitRequest_send_def getCurrentExcelContext_def run_callback_def
        read_sheet_def read_selection_def sample_host_def handleSubmitRequest_done_def
        handleSubmitRequest_try_def showError_def remove_nth_def Let_def)
  from one_request_when_overlay_respected [of fresh_page
      "[Input ''audit'', CtrlEnter, ContextSettled 0 (Calls sample_host),
         ResponseSettled 0 (NetworkError ''Failed to fetch'') 0 [], CtrlEnter]"] p l o
  show ?thesis by blast
qed

subsection \<open>Audit results\<close>

lemma js_includes_middle: "js_includes (a @ k @ b) k"
  by (simp add: js_includes_sublist)

lemma summary_html_total:
  "js_includes (summary_html a)
     (''<p>Total Issues: '' @ toStr (js_or (summary_total a) (JNum 0)) @ ''</p>'')"
proof -
  have "\<exists>x y. summary_html a =
      x @ (''<p>Total Issues: '' @ toStr (js_or (summary_total a) (JNum 0)) @ ''</p>'') @ y"
    unfolding summary_html_def
    by (metis append.assoc)
  then show ?thesis by (auto simp: js_includes_sublist sublist_def simp del: append.simps append_assoc)
qed

lemma for_each_objects:
  "for_each issue_child (map Some is) = Inr (map issue_element is)"
  by (induction "is") (simp_all add: issue_child_def)

lemma showAuditResults_elements:
  "issues r = Array (map Some is) \<Longrightarrow>
   showAuditResults r c =
     Inr (c @ [\<lparr>tagName = ''h4'', className = [], innerHTML = ''Formula Audit Results''\<rparr>,
               \<lparr>tagName = ''div'', className = ''result-item'',
                innerHTML = summary_html (audit_summary r)\<rparr>]
            @ map issue_element (take 5 is))"
  using for_each_objects [of "take 5 is"]
  by (simp add: showAuditResults_def Let_def take_map)

lemma issue_element_class:
  "className (issue_element i) =
     (if severity i = JStr ''high'' then ''result-item result-error''
      else if severity i = JStr ''medium'' then ''result-item result-warning''
      else ''result-item result-success'')"
  by (simp add: issue_element_def issue_class_def)

text \<open>
  C4, as the code has it. The count in the summary is not the number of issues of the
  response: it is the field \<^verbatim>\<open>audit_summary.total_issues\<close>, and 0 without it. A response
  with seven issues and no \<^verbatim>\<open>audit_summary\<close> renders "Total Issues: 0".
\<close>

theorem seven_issues_summary_zero:
  "issues seven_issues = Array (replicate 7 (Some sample_issue))
   \<and> length (replicate 7 (Some sample_issue)) = 7
   \<and> showResults seven_issues ''audit'' fresh_page =
       Inr (fresh_page\<lparr>results_content :=
         [\<lparr>tagName = ''h4'', className = [], innerHTML = ''Formula Audit Results''\<rparr>,
          \<lparr>tagName = ''div'', className = ''result-item'', innerHTML = summary_html None\<rparr>]
         @ replicate 5 (issue_element sample_issue)\<rparr>)
   \<and> js_includes (summary_html None) ''<p>Total Issues: 0</p>''
   \<and> \<not> js_includes (summary_html None) ''<p>Total Issues: 7</p>''"
  by (simp add: seven_issues_def showResults_def showAuditResults_def summary_html_def
      summary_total_def breakdown_field_def js_or_def string_of_nat.simps issue_child_def
      numeral_eq_Suc Let_def)

text \<open>
  C4, amended. For a response with an issues list, \<^verbatim>\<open>showAuditResults\<close> appends a title,
  a summary and one item for each of the first 5 issues at most, each item with the
  class of its severity (\<^verbatim>\<open>showResults\<close> picks this renderer when the response has no
  explanations). The summary reports \<^verbatim>\<open>audit_summary.total_issues\<close> of the response, and
  0 when the summary or the field is missing or falsy. A response with 7 issues whose
  summary counts 7 renders 5 issue items and "Total Issues: 7".
\<close>

theorem showAuditResults_first_five:
  "issues r = Array (map Some is) \<longrightarrow>
     showAuditResults r c =
       Inr (c @ [\<lparr>tagName = ''h4'', className = [], innerHTML = ''Formula Audit Results''\<rparr>,
                 \<lparr>tagName = ''div'', className = ''result-item'',
                  innerHTML = summary_html (audit_summary r)\<rparr>]
              @ map issue_element (take 5 is))
     \<and> length (map issue_element (take 5 is)) = min 5 (length is)
     \<and> (explanations r = Falsy \<longrightarrow>
          showResults r q st =
            Inr (st\<lparr>results_content :=
              [\<lparr>tagName = ''h4'', className = [], innerHTML = ''Formula Audit Results''\<rparr>,
               \<lparr>tagName = ''div'', className = ''result-item'',
                innerHTML = summary_html (audit_summary r)\<rparr>]
              @ map issue_element (take 5 is)\<rparr>))
     \<and> className (issue_element i) =
          (if severity i = JStr ''high'' then ''result-item result-error''
           else if severity i = JStr ''medium'' then ''result-item result-warning''
           else ''result-item result-success'')
     \<and> js_includes (summary_html (audit_summary r))
          (''<p>Total Issues: '' @ toStr (js_or (summary_total (audit_summary r)) (JNum 0)) @ ''</p>'')
     \<and> (length is = 7 \<and> audit_summary r = Some s \<and> total_issues s = JNum 7 \<longrightarrow>
          length (map issue_element (take 5 is)) = 5
          \<and> js_includes (summary_html (audit_summary r)) ''<p>Total Issues: 7</p>'')"
proof (intro impI)
  assume i: "issues r = Array (map Some is)"
  have c1: "showAuditResults r c =
       Inr (c @ [\<lparr>tagName = ''h4'', className = [], innerHTML = ''Formula Audit Results''\<rparr>,
                 \<lparr>tagName = ''div'', className = ''result-item'',
                  innerHTML = summary_html (audit_summary r)\<rparr>]
              @ map issue_element (take 5 is))"
    by (rule showAuditResults_elements [OF i])
  have c2: "length (map issue_element (take 5 is)) = min 5 (length is)"
    by (simp add: min.commute)
  have c3: "explanations r = Falsy \<longrightarrow>
          showResults r q st =
            Inr (st\<lparr>results_content :=
              [\<lparr>tagName = ''h4'', className = [], innerHTML = ''Formula Audit Results''\<rparr>,
               \<lparr>tagName = ''div'', className = ''result-item'',
                innerHTML = summary_html (audit_summary r)\<rparr>]
              @ map issue_element (take 5 is)\<rparr>)"
    using i showAuditResults_elements [OF i, of "[]"] by (simp add: showResults_def)
  have c4: "className (issue_element i) =
          (if severity i = JStr ''high'' then ''result-item result-error''
           else if severity i = JStr ''medium'' then ''result-item result-warning''
           else ''result-item result-success'')"
    by (rule issue_element_class)
  have c5: "js_includes (summary_html (audit_summary r))
      (''<p>Total Issues: '' @ toStr (js_or (summary_total (audit_summary r)) (JNum 0)) @ ''</p>'')"
    by (rule summary_html_total)
  have c6: "length is = 7 \<and> audit_summary r = Some s \<and> total_issues s = JNum 7 \<longrightarrow>
          length (map issue_element (take 5 is)) = 5
          \<and> js_includes (summary_html (audit_summary r)) ''<p>Total Issues: 7</p>''"
  proof (intro impI)
    assume a: "length is = 7 \<and> audit_summary r = Some s \<and> total_issues s = JNum 7"
    then have "''<p>Total Issues: '' @ toStr (js_or (summary_total (audit_summary r)) (JNum 0))
                 @ ''</p>'' = ''<p>Total Issues: 7</p>''"
      by (simp add: summary_total_def js_or_def string_of_nat.simps)
    with c5 have "js_includes (summary_html (audit_summary r)) ''<p>Total Issues: 7</p>''"
      by (simp only:)
    moreover have "length (map issue_element (take 5 is)) = 5" using a by simp
    ultimately show "length (map issue_element (take 5 is)) = 5
          \<and> js_includes (summary_html (audit_summary r)) ''<p>Total Issues: 7</p>''"
      by (intro conjI)
  qed
  from c1 c2 c3 c4 c5 c6
  show "showAuditResults r c =
       Inr (c @ [\<lparr>tagName = ''h4'', className = [], innerHTML = ''Formula Audit Results''\<rparr>,
                 \<lparr>tagName = ''div'', className = ''result-item'',
                  innerHTML = summary_html (audit_summary r)\<rparr>]
              @ map issue_element (take 5 is))
     \<and> length (map issue_element (take 5 is)) = min 5 (length is)
     \<and> (explanations r = Falsy \<longrightarrow>
          showResults r q st =
            Inr (st\<lparr>results_content :=
              [\<lparr>tagName = ''h4'', className = [], innerHTML = ''Formula Audit Results''\<rparr>,
               \<lparr>tagName = ''div'', className = ''result-item'',
                innerHTML = summary_html (audit_summary r)\<rparr>]
              @ map issue_element (take 5 is)\<rparr>))
     \<and> className (issue_element i) =
          (if severity i = JStr ''high'' then ''result-item result-error''
           else if severity i = JStr ''medium'' then ''result-item result-warning''
           else ''result-item result-success'')
     \<and> js_includes (summary_html (audit_summary r))
          (''<p>Total Issues: '' @ toStr (js_or (summary_total (audit_summary r)) (JNum 0)) @ ''</p>'')
     \<and> (length is = 7 \<and> audit_summary r = Some s \<and> total_issues s = JNum 7 \<longrightarrow>
          length (map issue_element (take 5 is)) = 5
          \<and> js_includes (summary_html (audit_summary r)) ''<p>Total Issues: 7</p>'')"
    by (intro conjI)
qed

theorem showAuditResults_first_five_witness:
  "issues seven_counted = Array (map Some (replicate 7 sample_issue))
   \<and> explanations seven_counted = Falsy
   \<and> length (replicate 7 sample_issue) = 7
   \<and> audit_summary seven_counted = Some \<lparr>total_issues = JNum 7, severity_breakdown = None\<rparr>
   \<and> total_issues \<lparr>total_issues = JNum 7, severity_breakdown = None\<rparr> = JNum 7
   \<and> length (map issue_element (take 5 (replicate 7 sample_issue))) = 5
   \<and> showResults seven_counted ''audit'' fresh_page =
       Inr (fresh_page\<lparr>results_content :=
         [\<lparr>tagName = ''h4'', className = [], innerHTML = ''Formula Audit Results''\<rparr>,
          \<lparr>tagName = ''div'', className = ''result-item'',
           innerHTML = summary_html (audit_summary seven_counted)\<rparr>]
         @ map issue_element (take 5 (replicate 7 sample_issue))\<rparr>)
   \<and> js_includes (summary_html (audit_summary seven_counted)) ''<p>Total Issues: 7</p>''"
proof -
  have h: "issues seven_counted = Array (map Some (replicate 7 sample_issue))"
          "explanations seven_counted = Falsy"
          "length (replicate 7 sample_issue) = 7"
          "audit_summary seven_counted = Some \<lparr>total_issues = JNum 7, severity_breakdown = None\<rparr>"
          "total_issues \<lparr>total_issues = JNum 7, severity_breakdown = None\<rparr> = JNum 7"
    by (simp_all add: seven_counted_def seven_issues_def)
  from showAuditResults_first_five [of seven_counted "replicate 7 sample_issue" "[]"
      "''audit''" fresh_page sample_issue "\<lparr>total_issues = JNum 7, severity_breakdown = None\<rparr>"] h
  show ?thesis by blast
qed

subsection \<open>Sending the request\<close>

lemma callback_resolves: "\<exists>ctx. run_callback host = Resolved ctx"
  by (simp add: run_callback_def split: sum.splits)

lemma send_sends:
  "getCurrentExcelContext excelRun = Resolved ctx \<Longrightarrow>
   handleSubmitRequest_send i q excelRun st =
     st\<lparr>pending := (pending st)[i := AwaitResponse q (serviceUrl st @ determineEndpoint st q)
        \<lparr>rq_query = q, rq_files = selectedFiles st, rq_context = ctx\<rparr>]\<rparr>"
  by (simp add: handleSubmitRequest_send_def Let_def)

lemma send_request:
  "\<exists>requestData. pending (handleSubmitRequest_send i q (Calls host) st) =
     (pending st)[i := AwaitResponse q (serviceUrl st @ determineEndpoint st q) requestData]"
proof -
  obtain ctx where "getCurrentExcelContext (Calls host) = Resolved ctx"
    using callback_resolves [of host] by (auto simp: getCurrentExcelContext_def)
  from send_sends [OF this, of i q st] show ?thesis by (simp (no_asm_simp)) blast
qed

subsection \<open>Settings\<close>

lemma saveSettings_stored:
  "\<not> storage_fails st \<Longrightarrow>
   lyncformula_settings (saveSettings st) =
     Some (Json \<lparr>s_serviceUrl = Some (service_url_value st), s_llmModel = Some (llm_model_value st),
                 s_autoBackup = Some (auto_backup_checked st)\<rparr>)
   \<and> serviceUrl (saveSettings st) = service_url_value st"
  by (simp add: saveSettings_def Let_def showNotification_def hideSettings_def
      checkServiceConnection_fetch_def)

lemma loadSettings_stored:
  "lyncformula_settings st = Some (Json \<lparr>s_serviceUrl = Some u, s_llmModel = Some m, s_autoBackup = Some b\<rparr>)
   \<Longrightarrow> u \<noteq> [] \<Longrightarrow> m \<noteq> [] \<Longrightarrow>
   loadSettings st = st\<lparr>serviceUrl := u, service_url_value := u, llm_model_value := m,
                          auto_backup_checked := b\<rparr>"
  by (simp add: loadSettings_def Let_def)

text \<open>
  C5. Save the settings, whatever the form holds (a URL and a model that are not empty,
  and a storage that takes the write), then load them on any page that has this
  storage, whatever its own form and globals hold: the three fields of the form are what
  they were at the save, nothing else of the page changes, and \<^verbatim>\<open>serviceUrl\<close> is the
  saved URL, after the save as after the load, so that the next health check goes to
  that URL followed by \<^verbatim>\<open>/health\<close> and the next request to that URL followed by its
  endpoint. The form \<^verbatim>\<open>{serviceUrl:"http://x", llmModel:"m", autoBackup:true}\<close> is the
  instance that follows the theorem.
\<close>

theorem settings_round_trip:
  "\<not> storage_fails st \<and> service_url_value st \<noteq> [] \<and> llm_model_value st \<noteq> []
   \<and> lyncformula_settings st' = lyncformula_settings (saveSettings st)
   \<longrightarrow> loadSettings st' =
         st'\<lparr>serviceUrl := service_url_value st, service_url_value := service_url_value st,
             llm_model_value := llm_model_value st, auto_backup_checked := auto_backup_checked st\<rparr>
       \<and> service_url_value (loadSettings st') = service_url_value st
       \<and> llm_model_value (loadSettings st') = llm_model_value st
       \<and> auto_backup_checked (loadSettings st') = auto_backup_checked st
       \<and> serviceUrl (saveSettings st) = service_url_value st
       \<and> serviceUrl (loadSettings st') = service_url_value st
       \<and> health_checks (checkServiceConnection_fetch (loadSettings st'))
            = health_checks st' @ [service_url_value st @ ''/health'']
       \<and> (\<exists>requestData. pending (handleSubmitRequest_send i q (Calls host) (loadSettings st'))
            = (pending st')[i := AwaitResponse q (service_url_value st @ determineEndpoint st' q)
                 requestData])"
proof (intro impI)
  assume a: "\<not> storage_fails st \<and> service_url_value st \<noteq> [] \<and> llm_model_value st \<noteq> []
   \<and> lyncformula_settings st' = lyncformula_settings (saveSettings st)"
  then have stored: "lyncformula_settings st' =
      Some (Json \<lparr>s_serviceUrl = Some (service_url_value st), s_llmModel = Some (llm_model_value st),
                  s_autoBackup = Some (auto_backup_checked st)\<rparr>)"
    and url: "serviceUrl (saveSettings st) = service_url_value st"
    using saveSettings_stored [of st] by simp_all
  have loaded: "loadSettings st' =
         st'\<lparr>serviceUrl := service_url_value st, service_url_value := service_url_value st,
             llm_model_value := llm_model_value st, auto_backup_checked := auto_backup_checked st\<rparr>"
    using a by (intro loadSettings_stored [OF stored]) simp_all
  have ep: "determineEndpoint (loadSettings st') q = determineEndpoint st' q"
    by (simp add: determineEndpoint_def Let_def)
  have req: "\<exists>requestData. pending (handleSubmitRequest_send i q (Calls host) (loadSettings st'))
            = (pending st')[i := AwaitResponse q (service_url_value st @ determineEndpoint st' q)
                 requestData]"
    using send_request [of i q host "loadSettings st'"] unfolding ep by (simp add: loaded)
  have rest: "service_url_value (loadSettings st') = service_url_value st
       \<and> llm_model_value (loadSettings st') = llm_model_value st
       \<and> auto_backup_checked (loadSettings st') = auto_backup_checked st
       \<and> serviceUrl (loadSettings st') = service_url_value st
       \<and> health_checks (checkServiceConnection_fetch (loadSettings st'))
            = health_checks st' @ [service_url_value st @ ''/health'']"
    by (simp add: loaded checkServiceConnection_fetch_def)
  from loaded url req rest
  show "loadSettings st' =
         st'\<lparr>serviceUrl := service_url_value st, service_url_value := service_url_value st,
             llm_model_value := llm_model_value st, auto_backup_checked := auto_backup_checked st\<rparr>
       \<and> service_url_value (loadSettings st') = service_url_value st
       \<and> llm_model_value (loadSettings st') = llm_model_value st
       \<and> auto_backup_checked (loadSettings st') = auto_backup_checked st
       \<and> serviceUrl (saveSettings st) = service_url_value st
       \<and> serviceUrl (loadSettings st') = service_url_value st
       \<and> health_checks (checkServiceConnection_fetch (loadSettings st'))
            = health_checks st' @ [service_url_value st @ ''/health'']
       \<and> (\<exists>requestData. pending (handleSubmitRequest_send i q (Calls host) (loadSettings st'))
            = (pending st')[i := AwaitResponse q (service_url_value st @ determineEndpoint st' q)
                 requestData])"
    by (intro conjI) simp_all
qed

theorem settings_round_trip_witness:
  "\<not> storage_fails page_to_save
   \<and> service_url_value page_to_save = ''http://x'' \<and> ''http://x'' \<noteq> []
   \<and> llm_model_value page_to_save = ''m'' \<and> ''m'' \<noteq> []
   \<and> auto_backup_checked page_to_save = True
   \<and> lyncformula_settings (fresh_page\<lparr>lyncformula_settings := lyncformula_settings (saveSettings page_to_save)\<rparr>)
       = lyncformula_settings (saveSettings page_to_save)
   \<and> service_url_value (fresh_page\<lparr>lyncformula_settings := lyncformula_settings (saveSettings page_to_save)\<rparr>)
       = ''http://127.0.0.1:8700''
   \<and> service_url_value (loadSettings (fresh_page\<lparr>lyncformula_settings := lyncformula_settings (saveSettings page_to_save)\<rparr>)) = ''http://x''
   \<and> llm_model_value (loadSettings (fresh_page\<lparr>lyncformula_settings := lyncformula_settings (saveSettings page_to_save)\<rparr>)) = ''m''
   \<and> auto_backup_checked (loadSettings (fresh_page\<lparr>lyncformula_settings := lyncformula_settings (saveSettings page_to_save)\<rparr>)) = True
   \<and> serviceUrl (loadSettings (fresh_page\<lparr>lyncformula_settings := lyncformula_settings (saveSettings page_to_save)\<rparr>)) = ''http://x''
   \<and> serviceUrl (saveSettings page_to_save) = ''http://x''"
proof -
  have h: "service_url_value page_to_save = ''http://x''" "llm_model_value page_to_save = ''m''"
      "auto_backup_checked page_to_save = True" "\<not> storage_fails page_to_save"
    by (simp_all add: page_to_save_def fresh_page_def)
  have s: "lyncformula_settings (fresh_page\<lparr>lyncformula_settings := lyncformula_settings (saveSettings page_to_save)\<rparr>)
       = lyncformula_settings (saveSettings page_to_save)"
    by simp
  have before: "service_url_value (fresh_page\<lparr>lyncformula_settings := lyncformula_settings (saveSettings page_to_save)\<rparr>)
       = ''http://127.0.0.1:8700''"
    by (simp add: fresh_page_def)
  have ne: "service_url_value page_to_save \<noteq> []" "llm_model_value page_to_save \<noteq> []"
    by (simp_all add: h)
  from settings_round_trip [of page_to_save
      "fresh_page\<lparr>lyncformula_settings := lyncformula_settings (saveSettings page_to_save)\<rparr>"] h s ne
  have r: "service_url_value (loadSettings (fresh_page\<lparr>lyncformula_settings := lyncformula_settings (saveSettings page_to_save)\<rparr>)) = service_url_value page_to_save
     \<and> llm_model_value (loadSettings (fresh_page\<lparr>lyncformula_settings := lyncformula_settings (saveSettings page_to_save)\<rparr>)) = llm_model_value page_to_save
     \<and> auto_backup_checked (loadSettings (fresh_page\<lparr>lyncformula_settings := lyncformula_settings (saveSettings page_to_save)\<rparr>)) = auto_backup_checked page_to_save
     \<and> serviceUrl (loadSettings (fresh_page\<lparr>lyncformula_settings := lyncformula_settings (saveSettings page_to_save)\<rparr>)) = service_url_value page_to_save
     \<and> serviceUrl (saveSettings page_to_save) = service_url_value page_to_save"
    by blast
  from r h s before show ?thesis by simp
qed

subsection \<open>The outcome of a submission\<close>



















subsection \<open>The connection monitor\<close>







subsection \<open>The Excel context\<close>

text \<open>
  C9. When reading the worksheet and its used range succeeds and the lookup of the
  selection throws, \<^verbatim>\<open>getCurrentExcelContext\<close> still resolves, with the snapshot of the
  sheet, \<^verbatim>\<open>hasSelection\<close> false, no \<^verbatim>\<open>selectedRange\<close> and no \<^verbatim>\<open>error\<close> field; the
  submission goes on to send its request with this snapshot and changes nothing else of
  the page (no error is shown, the overlay stays).
\<close>

theorem selection_failure_swallowed:
  "sheet_sync host = Inr info \<and> selection_sync host = Inl e \<longrightarrow>
     getCurrentExcelContext (Calls host) =
       Resolved \<lparr>worksheetName = ws_name info, usedRange = Some (ur_address info),
                 rowCount = Some (ur_rowCount info), columnCount = Some (ur_columnCount info),
                 hasSelection = Some False, selectedRange = None, error = None\<rparr>
     \<and> handleSubmitRequest_send i q (Calls host) st =
         st\<lparr>pending := (pending st)[i := AwaitResponse q (serviceUrl st @ determineEndpoint st q)
            \<lparr>rq_query = q, rq_files = selectedFiles st,
             rq_context = \<lparr>worksheetName = ws_name info, usedRange = Some (ur_address info),
                 rowCount = Some (ur_rowCount info), columnCount = Some (ur_columnCount info),
                 hasSelection = Some False, selectedRange = None, error = None\<rparr>\<rparr>]\<rparr>"
proof (intro impI)
  assume a: "sheet_sync host = Inr info \<and> selection_sync host = Inl e"
  then have r: "getCurrentExcelContext (Calls host) =
       Resolved \<lparr>worksheetName = ws_name info, usedRange = Some (ur_address info),
                 rowCount = Some (ur_rowCount info), columnCount = Some (ur_columnCount info),
                 hasSelection = Some False, selectedRange = None, error = None\<rparr>"
    by (simp add: getCurrentExcelContext_def run_callback_def read_sheet_def read_selection_def)
  from r send_sends [OF r, of i q st]
  show "getCurrentExcelContext (Calls host) =
       Resolved \<lparr>worksheetName = ws_name info, usedRange = Some (ur_address info),
                 rowCount = Some (ur_rowCount info), columnCount = Some (ur_columnCount info),
                 hasSelection = Some False, selectedRange = None, error = None\<rparr>
     \<and> handleSubmitRequest_send i q (Calls host) st =
         st\<lparr>pending := (pending st)[i := AwaitResponse q (serviceUrl st @ determineEndpoint st q)
            \<lparr>rq_query = q, rq_files = selectedFiles st,
             rq_context = \<lparr>worksheetName = ws_name info, usedRange = Some (ur_address info),
                 rowCount = Some (ur_rowCount info), columnCount = Some (ur_columnCount info),
                 hasSelection = Some False, selectedRange = None, error = None\<rparr>\<rparr>]\<rparr>"
    by (intro conjI)
qed

theorem selection_failure_swallowed_witness:
  "sheet_sync host_without_selection
     = Inr \<lparr>ws_name = ''Sheet1'', ur_address = ''Sheet1!A1:C10'', ur_rowCount = 10,
            ur_columnCount = 3\<rparr>
   \<and> selection_sync host_without_selection = Inl ''The current selection is invalid''
   \<and> getCurrentExcelContext (Calls host_without_selection) =
       Resolved \<lparr>worksheetName = ''Sheet1'', usedRange = Some ''Sheet1!A1:C10'',
                 rowCount = Some 10, columnCount = Some 3,
                 hasSelection = Some False, selectedRange = None, error = None\<rparr>"
proof -
  have s: "sheet_sync host_without_selection
     = Inr \<lparr>ws_name = ''Sheet1'', ur_address = ''Sheet1!A1:C10'', ur_rowCount = 10,
            ur_columnCount = 3\<rparr>"
    and e: "selection_sync host_without_selection = Inl ''The current selection is invalid''"
    by (simp_all add: host_without_selection_def sample_host_def)
  from selection_failure_swallowed [where host = host_without_selection
      and info = "\<lparr>ws_name = ''Sheet1'', ur_address = ''Sheet1!A1:C10'', ur_rowCount = 10,
            ur_columnCount = 3\<rparr>" and e = "''The current selection is invalid''"] s e
  have "getCurrentExcelContext (Calls host_without_selection) =
       Resolved \<lparr>worksheetName = ''Sheet1'', usedRange = Some ''Sheet1!A1:C10'',
                 rowCount = Some 10, columnCount = Some 3,
                 hasSelection = Some False, selectedRange = None, error = None\<rparr>"
    by simp
  with s e show ?thesis by blast
qed

text \<open>
  C10, as the code has it. Only the body of the function given to \<^verbatim>\<open>Excel.run\<close> is
  guarded. When \<^verbatim>\<open>Excel.run\<close> itself throws, the promise is rejected, and the submission
  that waits for it ends in its \<^verbatim>\<open>catch\<close> block with "Request failed"; when the function
  is never called, the promise stays pending.
\<close>

theorem excel_run_throwing_rejects:
  "getCurrentExcelContext (Throws ''Excel is not defined'') = Rejected ''Excel is not defined''
   \<and> getCurrentExcelContext (Throws ''Excel is not defined'')
       \<noteq> Resolved \<lparr>worksheetName = ''Unknown'', usedRange = None, rowCount = None,
                    columnCount = None, hasSelection = None, selectedRange = None,
                    error = Some ''Excel is not defined''\<rparr>
   \<and> getCurrentExcelContext NeverCalls = Pending
   \<and> pending (run [Input ''audit'', CtrlEnter,
        ContextSettled 0 (Throws ''Excel is not defined'')] fresh_page) = []
   \<and> results_content (run [Input ''audit'', CtrlEnter,
        ContextSettled 0 (Throws ''Excel is not defined'')] fresh_page)
       = results_content (showError ''Request failed: Excel is not defined'' fresh_page)"
  by (simp add: getCurrentExcelContext_def run_def fresh_page_def validateInput_def
      handleSubmitRequest_def trim_def is_space_def showLoading_def handleSubmitRequest_send_def
      showError_def remove_nth_def Let_def)

text \<open>
  C10, amended. Whenever \<^verbatim>\<open>Excel.run\<close> calls the function it is given,
  \<^verbatim>\<open>getCurrentExcelContext\<close> resolves with a context object, whatever the host calls
  inside do; when reading the worksheet's name or its used range throws, it resolves with
  \<^verbatim>\<open>{worksheetName: "Unknown", error: message}\<close>, and the submission goes on to send its
  request with this context. When \<^verbatim>\<open>Excel.run\<close> throws, the promise is rejected and the
  submission fails with "Request failed" and the error's message; when \<^verbatim>\<open>Excel.run\<close>
  never calls the function, the promise never settles and the submission stays where it
  is.
\<close>

theorem context_resolves_when_called:
  "(\<exists>ctx. getCurrentExcelContext (Calls host) = Resolved ctx)
   \<and> getCurrentExcelContext (Calls host) \<noteq> Rejected m
   \<and> getCurrentExcelContext (Calls host) \<noteq> Pending
   \<and> (sheet_sync host = Inl message \<longrightarrow>
        getCurrentExcelContext (Calls host) =
          Resolved \<lparr>worksheetName = ''Unknown'', usedRange = None, rowCount = None,
                    columnCount = None, hasSelection = None, selectedRange = None,
                    error = Some message\<rparr>
        \<and> handleSubmitRequest_send i q (Calls host) st =
            st\<lparr>pending := (pending st)[i := AwaitResponse q (serviceUrl st @ determineEndpoint st q)
               \<lparr>rq_query = q, rq_files = selectedFiles st,
                rq_context = \<lparr>worksheetName = ''Unknown'', usedRange = None, rowCount = None,
                    columnCount = None, hasSelection = None, selectedRange = None,
                    error = Some message\<rparr>\<rparr>]\<rparr>)
   \<and> getCurrentExcelContext (Throws message) = Rejected message
   \<and> handleSubmitRequest_send i q (Throws message) st =
       (showLoading False (showError (''Request failed: '' @ message) st))
         \<lparr>pending := remove_nth i (pending st)\<rparr>
   \<and> getCurrentExcelContext NeverCalls = Pending
   \<and> handleSubmitRequest_send i q NeverCalls st = st"
proof -
  have 1: "\<exists>ctx. getCurrentExcelContext (Calls host) = Resolved ctx"
    using callback_resolves [of host] by (simp add: getCurrentExcelContext_def)
  then have 2: "getCurrentExcelContext (Calls host) \<noteq> Rejected m"
    and 8: "getCurrentExcelContext (Calls host) \<noteq> Pending" by auto
  have 3: "sheet_sync host = Inl message \<Longrightarrow>
        getCurrentExcelContext (Calls host) =
          Resolved \<lparr>worksheetName = ''Unknown'', usedRange = None, rowCount = None,
                    columnCount = None, hasSelection = None, selectedRange = None,
                    error = Some message\<rparr>"
    by (simp add: getCurrentExcelContext_def run_callback_def read_sheet_def)
  have 4: "getCurrentExcelContext (Throws message) = Rejected message"
    and 5: "getCurrentExcelContext NeverCalls = Pending"
    by (simp_all add: getCurrentExcelContext_def)
  have 6: "handleSubmitRequest_send i q (Throws message) st =
       (showLoading False (showError (''Request failed: '' @ message) st))
         \<lparr>pending := remove_nth i (pending st)\<rparr>"
    by (simp add: handleSubmitRequest_send_def 4 Let_def showLoading_def showError_def)
  have 7: "handleSubmitRequest_send i q NeverCalls st = st"
    by (simp add: handleSubmitRequest_send_def 5)
  show ?thesis using 1 2 8 3 send_sends [OF 3, of i q st] 4 5 6 7 by blast
qed

theorem context_resolves_when_called_witness:
  "sheet_sync host_failing = Inl ''The request context is gone''
   \<and> getCurrentExcelContext (Calls host_failing) =
       Resolved \<lparr>worksheetName = ''Unknown'', usedRange = None, rowCount = None,
                 columnCount = None, hasSelection = None, selectedRange = None,
                 error = Some ''The request context is gone''\<rparr>"
proof -
  have s: "sheet_sync host_failing = Inl ''The request context is gone''"
    by (simp add: host_failing_def)
  from context_resolves_when_called [where host = host_failing
      and message = "''The request context is gone''"] s
  show ?thesis by blast
qed

end
